theory Spec2Isabelle
  imports Complex_Main
begin

section \<open>Data model of app.py\<close>

text \<open>
  The application keeps its state in one relational store. Every model class has an
  integer primary key \<open>id\<close>; a table is the list of its rows in storage order, each row
  paired with its key. Nullable columns are options. Columns of type Float are read as
  real numbers. The \<open>created_at\<close> and \<open>date\<close> columns, filled by a clock default and
  read by no handler modelled here, are left out.
\<close>

record date =
  year :: int
  month :: int
  day :: int

type_synonym 'a table = "(int \<times> 'a) list"

record User =
  user_username :: string
  user_password_hash :: string

record TenantUser =
  tu_username :: string
  tu_email :: string
  tu_password_hash :: string
  tu_phone :: "string option"

record Unit =
  unit_number :: string
  unit_status :: "string option"
  unit_property_id :: "int option"

record Tenant =
  tenant_name :: string
  tenant_phone :: "string option"
  tenant_email :: "string option"

record Lease =
  lease_unit_id :: "int option"
  lease_tenant_id :: "int option"
  lease_start_date :: "date option"
  lease_end_date :: "date option"
  lease_monthly_rent :: "real option"

record Payment =
  payment_lease_id :: "int option"
  payment_amount :: real

record MaintenanceRequest =
  mr_unit_id :: "int option"
  mr_description :: "string option"
  mr_status :: "string option"

record LeaseRequest =
  lr_unit_id :: "int option"
  lr_tenant_user_id :: "int option"
  lr_start_date :: "date option"
  lr_end_date :: "date option"
  lr_notes :: "string option"
  lr_status :: "string option"

record EmergencyContact =
  ec_unit_identifier :: "string option"
  ec_name :: "string option"
  ec_phone :: "string option"

record db =
  users :: "User table"
  tenant_users :: "TenantUser table"
  units :: "Unit table"
  tenants :: "Tenant table"
  leases :: "Lease table"
  payments :: "Payment table"
  maintenance_requests :: "MaintenanceRequest table"
  lease_requests :: "LeaseRequest table"
  emergency_contacts :: "EmergencyContact table"

subsection \<open>Queries and writes on a table\<close>

text \<open>\<open>Model.query.get(i)\<close>: the row with primary key \<open>i\<close>, if any.\<close>

definition query_get :: "'a table \<Rightarrow> int \<Rightarrow> 'a option" where
  "query_get t i = map_of t i"

text \<open>\<open>Model.query.filter(p).first()\<close>: the first row, in storage order, that satisfies \<open>p\<close>.\<close>

definition query_first :: "('a \<Rightarrow> bool) \<Rightarrow> 'a table \<Rightarrow> (int \<times> 'a) option" where
  "query_first p t = find (\<lambda>(i, r). p r) t"

text \<open>
  The key the storage engine gives a row added without one: 1 in an empty table, one
  more than the largest key in use otherwise.
\<close>

definition next_id :: "'a table \<Rightarrow> int" where
  "next_id t = (if t = [] then 1 else Max (set (map fst t)) + 1)"

definition session_add :: "'a table \<Rightarrow> 'a \<Rightarrow> 'a table" where
  "session_add t r = t @ [(next_id t, r)]"

definition update_row :: "'a table \<Rightarrow> int \<Rightarrow> ('a \<Rightarrow> 'a) \<Rightarrow> 'a table" where
  "update_row t i f = map (\<lambda>(j, r). if j = i then (j, f r) else (j, r)) t"

definition session_delete :: "'a table \<Rightarrow> int \<Rightarrow> 'a table" where
  "session_delete t i = filter (\<lambda>(j, r). j \<noteq> i) t"

section \<open>Principals and replies\<close>

text \<open>
  \<open>current_user\<close> is the anonymous user, a row of \<open>User\<close> (an administrator) or a row of
  \<open>TenantUser\<close>; the principal carries the row's key. Every handler is a function of the
  current principal, its request and the database, and returns its reply, the notices it
  flashed and the database as committed. A handler that raises commits nothing.
\<close>

datatype principal = Anonymous | Admin int | TenantAccount int

datatype reply =
    Json bool string nat
  | Redirect string
  | Render string
  | Abort nat

datatype notice =
    Notice string
  | Approved string
  | Purged nat

type_synonym outcome = "reply \<times> notice list \<times> db"

text \<open>Decimal text of an integer, as \<open>str\<close> and f-strings print it.\<close>

definition digit_char :: "nat \<Rightarrow> char" where
  "digit_char d = char_of (48 + d)"

fun py_str_nat :: "nat \<Rightarrow> string" where
  "py_str_nat n = (if n < 10 then [digit_char n] else py_str_nat (n div 10) @ [digit_char (n mod 10)])"

declare py_str_nat.simps [simp del]

definition py_str :: "int \<Rightarrow> string" where
  "py_str i = (if i < 0 then CHR ''-'' # py_str_nat (nat (- i)) else py_str_nat (nat i))"

text \<open>\<open>get_id\<close> of the two account classes; the anonymous user has none.\<close>

fun get_id :: "principal \<Rightarrow> string option" where
  "get_id Anonymous = None"
| "get_id (Admin i) = Some (''user_'' @ py_str i)"
| "get_id (TenantAccount i) = Some (''tenant_'' @ py_str i)"

definition startswith :: "string \<Rightarrow> string \<Rightarrow> bool" where
  "startswith s p = (take (length p) s = p)"

definition is_admin_user :: "principal \<Rightarrow> bool" where
  "is_admin_user u = (case get_id u of None \<Rightarrow> False | Some gid \<Rightarrow> startswith gid ''user_'')"

definition is_tenant_user :: "principal \<Rightarrow> bool" where
  "is_tenant_user u = (case get_id u of None \<Rightarrow> False | Some gid \<Rightarrow> startswith gid ''tenant_'')"

text \<open>The \<open>login_required\<close> decorator sends an anonymous caller to the login view.\<close>

definition login_required :: "principal \<Rightarrow> (db \<Rightarrow> outcome) \<Rightarrow> db \<Rightarrow> outcome" where
  "login_required u h s =
     (if u = Anonymous then (Redirect ''login'', [Notice ''Please log in to access this page.''], s)
      else h s)"

definition admin_only :: reply where
  "admin_only = Json False ''Admin access only'' 403"

section \<open>Booking workflow\<close>

text \<open>The relationships \<open>lease_req.tenant_user\<close> and \<open>lease_req.unit\<close>.\<close>

definition lr_tenant_user :: "db \<Rightarrow> LeaseRequest \<Rightarrow> TenantUser option" where
  "lr_tenant_user s r =
     (case lr_tenant_user_id r of None \<Rightarrow> None | Some i \<Rightarrow> query_get (tenant_users s) i)"

definition lr_unit :: "db \<Rightarrow> LeaseRequest \<Rightarrow> Unit option" where
  "lr_unit s r = (case lr_unit_id r of None \<Rightarrow> None | Some i \<Rightarrow> query_get (units s) i)"

text \<open>
  Get or create the tenant record for the account's email: the key of the tenant to
  lease to, and the tenant table after the step.
\<close>

definition get_or_create_tenant :: "Tenant table \<Rightarrow> TenantUser \<Rightarrow> int \<times> Tenant table" where
  "get_or_create_tenant t tenant_user =
     (case query_first (\<lambda>r. tenant_email r = Some (tu_email tenant_user)) t of
        Some (i, r) \<Rightarrow> (i, t)
      | None \<Rightarrow>
          (next_id t,
           session_add t \<lparr>tenant_name = tu_username tenant_user,
                          tenant_phone = tu_phone tenant_user,
                          tenant_email = Some (tu_email tenant_user)\<rparr>))"

definition approve_booking_request :: "principal \<Rightarrow> int \<Rightarrow> db \<Rightarrow> outcome" where
  "approve_booking_request u request_id = login_required u (\<lambda>s.
     if \<not> is_admin_user u then (admin_only, [], s)
     else case query_get (lease_requests s) request_id of
       None \<Rightarrow> (Redirect ''booking_requests'', [Notice ''Booking request not found.''], s)
     | Some lease_req \<Rightarrow>
         let s1 = s\<lparr>lease_requests :=
                     update_row (lease_requests s) request_id (\<lambda>r. r\<lparr>lr_status := Some ''approved''\<rparr>)\<rparr>
         in case lr_tenant_user s1 lease_req of
           None \<Rightarrow> (Abort 500, [], s)
         | Some tenant_user \<Rightarrow>
             let (tenant_id, tenants') = get_or_create_tenant (tenants s1) tenant_user;
                 s2 = s1\<lparr>tenants := tenants'\<rparr>
             in case lr_unit s2 lease_req of
               None \<Rightarrow> (Abort 500, [], s)
             | Some unit \<Rightarrow>
                 let s3 = s2\<lparr>units :=
                             update_row (units s2) (the (lr_unit_id lease_req))
                               (\<lambda>r. r\<lparr>unit_status := Some ''occupied''\<rparr>)\<rparr>;
                     lease = \<lparr>lease_unit_id = lr_unit_id lease_req,
                              lease_tenant_id = Some tenant_id,
                              lease_start_date = lr_start_date lease_req,
                              lease_end_date = lr_end_date lease_req,
                              lease_monthly_rent = Some 0\<rparr>;
                     s4 = s3\<lparr>leases := session_add (leases s3) lease\<rparr>
                 in (Redirect ''booking_requests'', [Approved (unit_number unit)], s4))"

definition reject_booking_request :: "principal \<Rightarrow> int \<Rightarrow> db \<Rightarrow> outcome" where
  "reject_booking_request u request_id = login_required u (\<lambda>s.
     if \<not> is_admin_user u then (admin_only, [], s)
     else case query_get (lease_requests s) request_id of
       None \<Rightarrow> (Redirect ''booking_requests'', [Notice ''Booking request not found.''], s)
     | Some lease_req \<Rightarrow>
         (Redirect ''booking_requests'', [Notice ''Booking request rejected.''],
          s\<lparr>lease_requests :=
              update_row (lease_requests s) request_id (\<lambda>r. r\<lparr>lr_status := Some ''rejected''\<rparr>)\<rparr>))"

text \<open>
  The purge runs a bulk delete and a commit inside \<open>try\<close>. Either may raise an error of
  the storage layer; which one does is an input of the model. \<open>try_purge\<close> is the body of
  the \<open>try\<close>: the number of rows deleted and the database as committed, or the exception.
\<close>

datatype fault = NoFault | DeleteFails | CommitFails

definition is_rejected :: "LeaseRequest \<Rightarrow> bool" where
  "is_rejected r = (lr_status r = Some ''rejected'')"

definition try_purge :: "fault \<Rightarrow> db \<Rightarrow> unit + (nat \<times> db)" where
  "try_purge f s =
     (if f = DeleteFails then Inl ()
      else let deleted = length (filter (\<lambda>(i, r). is_rejected r) (lease_requests s));
               s' = s\<lparr>lease_requests := filter (\<lambda>(i, r). \<not> is_rejected r) (lease_requests s)\<rparr>
           in if f = CommitFails then Inl () else Inr (deleted, s'))"

definition purge_rejected_requests :: "fault \<Rightarrow> principal \<Rightarrow> db \<Rightarrow> outcome" where
  "purge_rejected_requests f u = login_required u (\<lambda>s.
     if \<not> is_admin_user u then (admin_only, [], s)
     else case try_purge f s of
       Inr (deleted, s') \<Rightarrow> (Redirect ''booking_requests'', [Purged deleted], s')
     | Inl e \<Rightarrow> (Redirect ''booking_requests'', [Notice ''Error purging rejected requests.''], s))"

subsection \<open>Reading numbers and splitting identifiers\<close>

text \<open>
  Python's \<open>int\<close> on ASCII text: surrounding white space is dropped, a sign may come
  first, and the rest is decimal digits, where one underscore may stand between two
  digits. The result is \<open>None\<close> where \<open>int\<close> raises \<open>ValueError\<close>.
\<close>

definition is_space :: "char \<Rightarrow> bool" where
  "is_space c = ((of_char c :: nat) = 32 \<or> (9 \<le> (of_char c :: nat) \<and> (of_char c :: nat) \<le> 13)
                 \<or> (28 \<le> (of_char c :: nat) \<and> (of_char c :: nat) \<le> 31))"

definition strip :: "string \<Rightarrow> string" where
  "strip s = rev (dropWhile is_space (rev (dropWhile is_space s)))"

definition is_digit :: "char \<Rightarrow> bool" where
  "is_digit c = (48 \<le> (of_char c :: nat) \<and> (of_char c :: nat) \<le> 57)"

definition digit_val :: "char \<Rightarrow> nat" where
  "digit_val c = of_char c - 48"

fun digits_value :: "nat \<Rightarrow> string \<Rightarrow> nat option" where
  "digits_value acc [] = Some acc"
| "digits_value acc (c # cs) =
     (if is_digit c then digits_value (acc * 10 + digit_val c) cs
      else if c = CHR ''_'' then
        (case cs of
           [] \<Rightarrow> None
         | d # ds \<Rightarrow> if is_digit d then digits_value (acc * 10 + digit_val d) ds else None)
      else None)"

definition py_nat_literal :: "string \<Rightarrow> nat option" where
  "py_nat_literal s =
     (case s of [] \<Rightarrow> None | c # cs \<Rightarrow> if is_digit c then digits_value (digit_val c) cs else None)"

definition py_int :: "string \<Rightarrow> int option" where
  "py_int s =
     (case strip s of
        [] \<Rightarrow> None
      | c # cs \<Rightarrow>
          if c = CHR ''-'' then map_option (\<lambda>n. - int n) (py_nat_literal cs)
          else if c = CHR ''+'' then map_option int (py_nat_literal cs)
          else map_option int (py_nat_literal (c # cs)))"

text \<open>\<open>s.split('_', 1)\<close> for a string that holds an underscore: the text before the first
  one and the text after it.\<close>

definition split_underscore :: "string \<Rightarrow> string \<times> string" where
  "split_underscore s =
     (takeWhile (\<lambda>c. c \<noteq> CHR ''_'') s, drop 1 (dropWhile (\<lambda>c. c \<noteq> CHR ''_'') s))"

subsection \<open>Submitting a booking\<close>

type_synonym form = "string \<rightharpoonup> string"

text \<open>
  \<open>datetime.fromisoformat(x).date()\<close> is a parameter of the model (\<open>None\<close> where it
  raises). The handler parses a date field only when it is present and not empty.
\<close>

definition parse_date_field :: "(string \<Rightarrow> date option) \<Rightarrow> string option \<Rightarrow> date option option" where
  "parse_date_field fromisoformat x =
     (case x of
        None \<Rightarrow> Some None
      | Some t \<Rightarrow> if t = [] then Some None else map_option Some (fromisoformat t))"

definition truthy :: "string option \<Rightarrow> bool" where
  "truthy x = (case x of None \<Rightarrow> False | Some t \<Rightarrow> t \<noteq> [])"

text \<open>The key of the tenant account, read back from \<open>get_id\<close> as the handler does.\<close>

definition principal_id :: "principal \<Rightarrow> int option" where
  "principal_id u = (case u of Anonymous \<Rightarrow> None | Admin i \<Rightarrow> Some i | TenantAccount i \<Rightarrow> Some i)"

definition tenant_uid_of :: "principal \<Rightarrow> int option" where
  "tenant_uid_of u =
     (case get_id u of
        Some raw_uid \<Rightarrow>
          if CHR ''_'' \<in> set raw_uid then py_int (snd (split_underscore raw_uid))
          else principal_id u
      | None \<Rightarrow> principal_id u)"

definition book_unit :: "(string \<Rightarrow> date option) \<Rightarrow> principal \<Rightarrow> form \<Rightarrow> db \<Rightarrow> outcome" where
  "book_unit fromisoformat u form = login_required u (\<lambda>s.
     if \<not> is_tenant_user u then (Json False ''Only tenants can book units'' 403, [], s)
     else
       let start_date = form ''start_date'';
           end_date = form ''end_date'';
           notes = (case form ''notes'' of None \<Rightarrow> [] | Some n \<Rightarrow> n)
       in case Option.bind (form ''unit_id'') py_int of
         None \<Rightarrow> (Json False ''Invalid unit id'' 400, [], s)
       | Some unit_id \<Rightarrow>
           (case parse_date_field fromisoformat start_date of
              None \<Rightarrow> (Json False ''Invalid date format'' 400, [], s)
            | Some start_date_obj \<Rightarrow>
           (case parse_date_field fromisoformat end_date of
              None \<Rightarrow> (Json False ''Invalid date format'' 400, [], s)
            | Some end_date_obj \<Rightarrow>
                if \<not> (unit_id \<noteq> 0 \<and> truthy start_date \<and> truthy end_date)
                then (Json False ''All fields required'' 400, [], s)
                else case query_get (units s) unit_id of
                  None \<Rightarrow> (Json False ''Unit is not available'' 400, [], s)
                | Some unit \<Rightarrow>
                    if unit_status unit \<noteq> Some ''vacant''
                    then (Json False ''Unit is not available'' 400, [], s)
                    else case tenant_uid_of u of
                      None \<Rightarrow> (Json False ''Unable to identify tenant user id'' 400, [], s)
                    | Some tenant_uid \<Rightarrow>
                        (Json True ''Booking request created successfully'' 200,
                         [Notice ''Booking request submitted! An admin will review your request soon.''],
                         s\<lparr>lease_requests := session_add (lease_requests s)
                             \<lparr>lr_unit_id = Some unit_id,
                              lr_tenant_user_id = Some tenant_uid,
                              lr_start_date = start_date_obj,
                              lr_end_date = end_date_obj,
                              lr_notes = Some notes,
                              lr_status = Some ''pending''\<rparr>\<rparr>))))"

section \<open>Session restore\<close>




section \<open>Dashboard aggregates\<close>






text \<open>
  The latest tenant of each unit. \<open>existing\<close> is a dict with the keys \<open>tenant_name\<close> and
  \<open>lease_id\<close>: it is truthy when present, and \<open>hasattr(existing, 'id')\<close> is false for a
  dict, so the comparison of lease keys after \<open>or\<close> is never reached.
\<close>

definition l_tenant_name :: "db \<Rightarrow> Lease \<Rightarrow> string option" where
  "l_tenant_name s l =
     (case Option.bind (lease_tenant_id l) (query_get (tenants s)) of
        None \<Rightarrow> None
      | Some t \<Rightarrow> Some (tenant_name t))"

definition dict_hasattr_id :: bool where
  "dict_hasattr_id = False"

fun unit_tenants_loop ::
  "db \<Rightarrow> Lease table \<Rightarrow> (int option \<rightharpoonup> string option \<times> int) \<Rightarrow> (int option \<rightharpoonup> string option \<times> int)" where
  "unit_tenants_loop s [] unit_tenants = unit_tenants"
| "unit_tenants_loop s ((lid, l) # ls) unit_tenants =
     (let tenant_name = l_tenant_name s l;
          existing = unit_tenants (lease_unit_id l)
      in if (case existing of
               None \<Rightarrow> True
             | Some (existing_name, existing_lease_id) \<Rightarrow>
                 lid \<noteq> 0 \<and> (\<not> dict_hasattr_id \<or> lid > existing_lease_id))
         then unit_tenants_loop s ls (unit_tenants(lease_unit_id l \<mapsto> (tenant_name, lid)))
         else unit_tenants_loop s ls unit_tenants)"

definition dashboard_unit_tenants :: "db \<Rightarrow> (int option \<rightharpoonup> string option)" where
  "dashboard_unit_tenants s = (\<lambda>k. map_option fst (unit_tenants_loop s (leases s) Map.empty k))"

text \<open>The latest rent of each unit: the rent of the lease with the largest key among
  those of the unit, 0 when the unit has no lease.\<close>

definition latest_lease :: "Lease table \<Rightarrow> int \<Rightarrow> (int \<times> Lease) option" where
  "latest_lease t uid =
     (case sort_key (\<lambda>(i, l). - i) (filter (\<lambda>(i, l). lease_unit_id l = Some uid) t) of
        [] \<Rightarrow> None
      | x # xs \<Rightarrow> Some x)"

fun unit_latest_rent_loop ::
  "db \<Rightarrow> Unit table \<Rightarrow> (int \<rightharpoonup> real option) \<Rightarrow> (int \<rightharpoonup> real option)" where
  "unit_latest_rent_loop s [] unit_latest_rent = unit_latest_rent"
| "unit_latest_rent_loop s ((uid, unit) # us) unit_latest_rent =
     unit_latest_rent_loop s us
       (unit_latest_rent(uid \<mapsto>
          (case latest_lease (leases s) uid of
             None \<Rightarrow> Some 0
           | Some (lid, l) \<Rightarrow> lease_monthly_rent l)))"

definition dashboard_unit_latest_rent :: "db \<Rightarrow> (int \<rightharpoonup> real option)" where
  "dashboard_unit_latest_rent s = unit_latest_rent_loop s (units s) Map.empty"

section \<open>Authentication\<close>

text \<open>
  \<open>check_password_hash\<close> and \<open>generate_password_hash\<close> of the password library are
  parameters of the model; a check is \<open>None\<close> where the call raises. A login handler
  returns its reply, its notices and the principal it passed to \<open>login_user\<close>, if any.
  The \<open>next\<close> argument of the query string is not modelled.
\<close>

datatype http_method = GET | POST

type_synonym check_hash = "string \<Rightarrow> string option \<Rightarrow> bool option"

type_synonym login_outcome = "reply \<times> notice list \<times> principal option"

definition login :: "check_hash \<Rightarrow> http_method \<Rightarrow> form \<Rightarrow> db \<Rightarrow> login_outcome" where
  "login check_password_hash m form s =
     (if m = POST then
        (case Option.bind (form ''username'') (\<lambda>n. query_first (\<lambda>r. user_username r = n) (users s)) of
           None \<Rightarrow> (Render ''login.html'', [Notice ''Invalid credentials.''], None)
         | Some (uid, user) \<Rightarrow>
             (case check_password_hash (user_password_hash user) (form ''password'') of
                None \<Rightarrow> (Abort 500, [], None)
              | Some ok \<Rightarrow>
                  if ok then (Redirect ''dashboard'', [Notice ''Logged in.''], Some (Admin uid))
                  else (Render ''login.html'', [Notice ''Invalid credentials.''], None)))
      else (Render ''login.html'', [], None))"

definition tenant_login :: "check_hash \<Rightarrow> http_method \<Rightarrow> form \<Rightarrow> db \<Rightarrow> login_outcome" where
  "tenant_login check_password_hash m form s =
     (if m = POST then
        (case Option.bind (form ''username'') (\<lambda>n. query_first (\<lambda>r. tu_username r = n) (tenant_users s)) of
           None \<Rightarrow> (Render ''tenant_login.html'', [Notice ''Invalid credentials.''], None)
         | Some (uid, tenant) \<Rightarrow>
             (case check_password_hash (tu_password_hash tenant) (form ''password'') of
                None \<Rightarrow> (Abort 500, [], None)
              | Some ok \<Rightarrow>
                  if ok then (Redirect ''dashboard'', [Notice ''Logged in as tenant.''], Some (TenantAccount uid))
                  else (Render ''tenant_login.html'', [Notice ''Invalid credentials.''], None)))
      else (Render ''tenant_login.html'', [], None))"

text \<open>\<open>admin_autologin\<close> takes the password of the JSON body or the form.\<close>

definition admin_autologin :: "string option \<Rightarrow> db \<Rightarrow> login_outcome" where
  "admin_autologin pw s =
     (if \<not> truthy pw then (Json False ''Password required.'' 400, [], None)
      else if pw = Some ''admin1234'' then
        (case query_first (\<lambda>r. user_username r = ''admin'') (users s) of
           Some (uid, admin) \<Rightarrow> (Json True [] 200, [], Some (Admin uid))
         | None \<Rightarrow> (Json False ''Admin user not found.'' 404, [], None))
      else (Json False ''Incorrect password.'' 401, [], None))"

text \<open>The stored hash \<open>current_user.check_password\<close> compares with; the anonymous user has
  no such method.\<close>

definition current_password_hash :: "db \<Rightarrow> principal \<Rightarrow> string option" where
  "current_password_hash s u =
     (case u of
        Anonymous \<Rightarrow> None
      | Admin i \<Rightarrow> map_option user_password_hash (query_get (users s) i)
      | TenantAccount i \<Rightarrow> map_option tu_password_hash (query_get (tenant_users s) i))"

definition change_password ::
  "check_hash \<Rightarrow> (string \<Rightarrow> string) \<Rightarrow> principal \<Rightarrow> http_method \<Rightarrow> form \<Rightarrow> db \<Rightarrow> outcome" where
  "change_password check_password_hash generate_password_hash u m form s =
     (if m = POST then
        (case Option.bind (current_password_hash s u)
                (\<lambda>h. check_password_hash h (form ''current_password'')) of
           None \<Rightarrow> (Abort 500, [], s)
         | Some ok \<Rightarrow>
             if \<not> ok then (Redirect ''change_password'', [Notice ''Current password is incorrect.''], s)
             else if form ''new_password'' \<noteq> form ''confirm_password''
             then (Redirect ''change_password'', [Notice ''New passwords do not match.''], s)
             else case form ''new_password'' of
               None \<Rightarrow> (Abort 500, [], s)
             | Some new \<Rightarrow>
                 if length new < 6
                 then (Redirect ''change_password'',
                       [Notice ''New password must be at least 6 characters.''], s)
                 else case principal_id u of
                   None \<Rightarrow> (Abort 500, [], s)
                 | Some i \<Rightarrow>
                     (case query_get (users s) i of
                        None \<Rightarrow> (Abort 500, [], s)
                      | Some usr \<Rightarrow>
                          (Redirect ''dashboard'', [Notice ''Password changed successfully.''],
                           s\<lparr>users := update_row (users s) i
                               (\<lambda>r. r\<lparr>user_password_hash := generate_password_hash new\<rparr>)\<rparr>)))
      else (Render ''change_password.html'', [], s))"

section \<open>Forms for tenants, leases, payments, maintenance requests and emergency contacts\<close>

text \<open>
  These handlers take strings from the form and store them in typed columns. What the
  storage layer makes of a string bound to an Integer or a Date column, and Python's
  \<open>float\<close>, are parameters: \<open>int_column\<close> gives the integer the column then holds (NULL
  when it holds none), \<open>date_column\<close> and \<open>py_float\<close> are \<open>None\<close> where the statement or
  the conversion raises. \<open>request.form['k']\<close> aborts with 400 when the field is missing,
  and \<open>get_or_404\<close> aborts with 404 when the row is.
\<close>

record coercions =
  int_column :: "string \<Rightarrow> int option"
  date_column :: "string \<Rightarrow> date option"
  py_float :: "string \<Rightarrow> real option"

text \<open>\<open>x or None\<close> for a form field, the rent \<open>float(x or 0)\<close>, and a date column bound to
  an optional string.\<close>

definition or_none :: "string option \<Rightarrow> string option" where
  "or_none x = (if truthy x then x else None)"

definition float_or_0 :: "coercions \<Rightarrow> string option \<Rightarrow> real option" where
  "float_or_0 c x = (case or_none x of None \<Rightarrow> Some 0 | Some t \<Rightarrow> py_float c t)"

definition bind_date :: "coercions \<Rightarrow> string option \<Rightarrow> date option option" where
  "bind_date c x = (case x of None \<Rightarrow> Some None | Some t \<Rightarrow> map_option Some (date_column c t))"

definition tenant_create :: "principal \<Rightarrow> http_method \<Rightarrow> form \<Rightarrow> db \<Rightarrow> outcome" where
  "tenant_create u m form s =
     (if m = POST then
        (case form ''name'' of
           None \<Rightarrow> (Abort 400, [], s)
         | Some name \<Rightarrow>
             (Redirect ''tenants_list'', [Notice ''Tenant created.''],
              s\<lparr>tenants := session_add (tenants s)
                  \<lparr>tenant_name = name, tenant_phone = form ''phone'', tenant_email = form ''email''\<rparr>\<rparr>))
      else (Render ''tenant_form.html'', [], s))"

definition tenant_edit :: "principal \<Rightarrow> int \<Rightarrow> http_method \<Rightarrow> form \<Rightarrow> db \<Rightarrow> outcome" where
  "tenant_edit u tid m form s =
     (case query_get (tenants s) tid of
        None \<Rightarrow> (Abort 404, [], s)
      | Some tenant \<Rightarrow>
          if m = POST then
            (case form ''name'' of
               None \<Rightarrow> (Abort 400, [], s)
             | Some name \<Rightarrow>
                 (Redirect ''tenants_list'', [Notice ''Tenant updated.''],
                  s\<lparr>tenants := update_row (tenants s) tid
                      (\<lambda>r. r\<lparr>tenant_name := name, tenant_phone := form ''phone'',
                              tenant_email := form ''email''\<rparr>)\<rparr>))
          else (Render ''tenant_form.html'', [], s))"

definition lease_create :: "coercions \<Rightarrow> principal \<Rightarrow> http_method \<Rightarrow> form \<Rightarrow> db \<Rightarrow> outcome" where
  "lease_create c u m form s =
     (if m = POST then
        (case form ''unit_id'' of
           None \<Rightarrow> (Abort 400, [], s)
         | Some unit_id \<Rightarrow>
        (case form ''tenant_id'' of
           None \<Rightarrow> (Abort 400, [], s)
         | Some tenant_id \<Rightarrow>
        (case float_or_0 c (form ''monthly_rent'') of
           None \<Rightarrow> (Abort 500, [], s)
         | Some monthly_rent \<Rightarrow>
        (case bind_date c (or_none (form ''start_date'')) of
           None \<Rightarrow> (Abort 500, [], s)
         | Some start_date \<Rightarrow>
        (case bind_date c (or_none (form ''end_date'')) of
           None \<Rightarrow> (Abort 500, [], s)
         | Some end_date \<Rightarrow>
             let lease = \<lparr>lease_unit_id = int_column c unit_id,
                          lease_tenant_id = int_column c tenant_id,
                          lease_start_date = start_date, lease_end_date = end_date,
                          lease_monthly_rent = Some monthly_rent\<rparr>;
                 s1 = s\<lparr>leases := session_add (leases s) lease\<rparr>;
                 s2 = (case int_column c unit_id of
                         None \<Rightarrow> s1
                       | Some k \<Rightarrow>
                           (case query_get (units s1) k of
                              None \<Rightarrow> s1
                            | Some unit \<Rightarrow>
                                s1\<lparr>units := update_row (units s1) k
                                     (\<lambda>r. r\<lparr>unit_status := Some ''occupied''\<rparr>)\<rparr>))
             in (Redirect ''leases_list'', [Notice ''Lease created.''], s2))))))
      else (Render ''lease_form.html'', [], s))"

definition lease_edit :: "coercions \<Rightarrow> principal \<Rightarrow> int \<Rightarrow> http_method \<Rightarrow> form \<Rightarrow> db \<Rightarrow> outcome" where
  "lease_edit c u lid m form s =
     (case query_get (leases s) lid of
        None \<Rightarrow> (Abort 404, [], s)
      | Some lease \<Rightarrow>
          if m = POST then
            (case form ''unit_id'' of
               None \<Rightarrow> (Abort 400, [], s)
             | Some unit_id \<Rightarrow>
            (case form ''tenant_id'' of
               None \<Rightarrow> (Abort 400, [], s)
             | Some tenant_id \<Rightarrow>
            (case float_or_0 c (form ''monthly_rent'') of
               None \<Rightarrow> (Abort 500, [], s)
             | Some monthly_rent \<Rightarrow>
            (case bind_date c (or_none (form ''start_date'')) of
               None \<Rightarrow> (Abort 500, [], s)
             | Some start_date \<Rightarrow>
            (case bind_date c (or_none (form ''end_date'')) of
               None \<Rightarrow> (Abort 500, [], s)
             | Some end_date \<Rightarrow>
                 (Redirect ''leases_list'', [Notice ''Lease updated.''],
                  s\<lparr>leases := update_row (leases s) lid
                      (\<lambda>r. \<lparr>lease_unit_id = int_column c unit_id,
                             lease_tenant_id = int_column c tenant_id,
                             lease_start_date = start_date, lease_end_date = end_date,
                             lease_monthly_rent = Some monthly_rent\<rparr>)\<rparr>))))))
          else (Render ''lease_form.html'', [], s))"

definition payment_create :: "coercions \<Rightarrow> principal \<Rightarrow> http_method \<Rightarrow> form \<Rightarrow> db \<Rightarrow> outcome" where
  "payment_create c u m form s =
     (if m = POST then
        (case form ''lease_id'' of
           None \<Rightarrow> (Abort 400, [], s)
         | Some lease_id \<Rightarrow>
        (case form ''amount'' of
           None \<Rightarrow> (Abort 400, [], s)
         | Some a \<Rightarrow>
        (case float_or_0 c (Some a) of
           None \<Rightarrow> (Abort 500, [], s)
         | Some amount \<Rightarrow>
             (Redirect ''payments_list'', [Notice ''Payment logged.''],
              s\<lparr>payments := session_add (payments s)
                  \<lparr>payment_lease_id = int_column c lease_id, payment_amount = amount\<rparr>\<rparr>))))
      else (Render ''payment_form.html'', [], s))"

definition maintenance_create :: "coercions \<Rightarrow> principal \<Rightarrow> http_method \<Rightarrow> form \<Rightarrow> db \<Rightarrow> outcome" where
  "maintenance_create c u m form s =
     (if m = POST then
        (Redirect ''maintenance_list'', [Notice ''Maintenance request created.''],
         s\<lparr>maintenance_requests := session_add (maintenance_requests s)
             \<lparr>mr_unit_id = Option.bind (form ''unit_id'') (int_column c),
              mr_description = form ''description'', mr_status = Some ''open''\<rparr>\<rparr>)
      else (Render ''maintenance_form.html'', [], s))"

definition maintenance_edit :: "principal \<Rightarrow> int \<Rightarrow> http_method \<Rightarrow> form \<Rightarrow> db \<Rightarrow> outcome" where
  "maintenance_edit u mid m form s =
     (case query_get (maintenance_requests s) mid of
        None \<Rightarrow> (Abort 404, [], s)
      | Some req \<Rightarrow>
          if m = POST then
            (Redirect ''maintenance_list'', [Notice ''Maintenance request updated.''],
             s\<lparr>maintenance_requests := update_row (maintenance_requests s) mid
                 (\<lambda>r. r\<lparr>mr_description := form ''description'', mr_status := form ''status''\<rparr>)\<rparr>)
          else (Render ''maintenance_form.html'', [], s))"

definition emergency_contact_create :: "principal \<Rightarrow> http_method \<Rightarrow> form \<Rightarrow> db \<Rightarrow> outcome" where
  "emergency_contact_create u m form s =
     (if m = POST then
        (Redirect ''emergency_contacts_list'', [Notice ''Emergency contact added.''],
         s\<lparr>emergency_contacts := session_add (emergency_contacts s)
             \<lparr>ec_unit_identifier = form ''unit_identifier'', ec_name = form ''name'',
              ec_phone = form ''phone''\<rparr>\<rparr>)
      else (Render ''emergency_contact_form.html'', [], s))"

definition emergency_contact_edit :: "principal \<Rightarrow> int \<Rightarrow> http_method \<Rightarrow> form \<Rightarrow> db \<Rightarrow> outcome" where
  "emergency_contact_edit u cid m form s =
     (case query_get (emergency_contacts s) cid of
        None \<Rightarrow> (Abort 404, [], s)
      | Some contact \<Rightarrow>
          if m = POST then
            (Redirect ''emergency_contacts_list'', [Notice ''Emergency contact updated.''],
             s\<lparr>emergency_contacts := update_row (emergency_contacts s) cid
                 (\<lambda>r. \<lparr>ec_unit_identifier = form ''unit_identifier'', ec_name = form ''name'',
                        ec_phone = form ''phone''\<rparr>)\<rparr>)
          else (Render ''emergency_contact_form.html'', [], s))"

definition emergency_contact_delete :: "principal \<Rightarrow> int \<Rightarrow> db \<Rightarrow> outcome" where
  "emergency_contact_delete u cid s =
     (case query_get (emergency_contacts s) cid of
        None \<Rightarrow> (Abort 404, [], s)
      | Some contact \<Rightarrow>
          (Redirect ''emergency_contacts_list'', [Notice ''Emergency contact deleted.''],
           s\<lparr>emergency_contacts := session_delete (emergency_contacts s) cid\<rparr>))"

text \<open>
  For comparison, a handler of the same family that does check its caller:
  \<open>tenant_delete\<close> requires a login and an administrator.
\<close>

definition tenant_delete :: "principal \<Rightarrow> int \<Rightarrow> db \<Rightarrow> outcome" where
  "tenant_delete u tid = login_required u (\<lambda>s.
     if (case u of Admin i \<Rightarrow> False | _ \<Rightarrow> True)
     then (Redirect ''dashboard'', [Notice ''Admin access only. You cannot delete tenants.''], s)
     else case query_get (tenants s) tid of
       None \<Rightarrow> (Abort 404, [], s)
     | Some tenant \<Rightarrow>
         (Redirect ''tenants_list'', [Notice ''Tenant deleted successfully.''],
          s\<lparr>tenants := session_delete (tenants s) tid\<rparr>))"

section \<open>A sample database\<close>

text \<open>
  A small database in the shape \<open>init-db\<close> seeds, with three booking requests: one
  pending, one rejected and one approved.
\<close>

definition demo_db :: db where
  "demo_db =
     \<lparr>users = [(1, \<lparr>user_username = ''admin'', user_password_hash = ''hash-s3cret9''\<rparr>)],
      tenant_users =
        [(1, \<lparr>tu_username = ''tenant'', tu_email = ''tenant@example.com'',
               tu_password_hash = ''hash-tenant123'', tu_phone = None\<rparr>),
         (2, \<lparr>tu_username = ''juan'', tu_email = ''juan@example.com'',
               tu_password_hash = ''hash-juan5678'', tu_phone = Some ''0917''\<rparr>)],
      units =
        [(1, \<lparr>unit_number = ''Room 1'', unit_status = Some ''occupied'', unit_property_id = Some 1\<rparr>),
         (2, \<lparr>unit_number = ''Room 2'', unit_status = Some ''vacant'', unit_property_id = Some 2\<rparr>),
         (3, \<lparr>unit_number = ''Room 3'', unit_status = Some ''vacant'', unit_property_id = Some 3\<rparr>)],
      tenants =
        [(1, \<lparr>tenant_name = ''Juan Dela Cruz'', tenant_phone = Some ''09171234567'',
               tenant_email = Some ''juan@example.com''\<rparr>)],
      leases =
        [(1, \<lparr>lease_unit_id = Some 1, lease_tenant_id = Some 1,
               lease_start_date = Some \<lparr>year = 2025, month = 1, day = 15\<rparr>,
               lease_end_date = Some \<lparr>year = 2026, month = 1, day = 15\<rparr>,
               lease_monthly_rent = Some 5000\<rparr>)],
      payments =
        [(1, \<lparr>payment_lease_id = Some 1, payment_amount = 5000\<rparr>),
         (2, \<lparr>payment_lease_id = Some 1, payment_amount = 3000\<rparr>)],
      maintenance_requests =
        [(1, \<lparr>mr_unit_id = Some 1, mr_description = Some ''Leaky faucet'', mr_status = Some ''open''\<rparr>)],
      lease_requests =
        [(1, \<lparr>lr_unit_id = Some 2, lr_tenant_user_id = Some 1,
               lr_start_date = Some \<lparr>year = 2025, month = 6, day = 1\<rparr>,
               lr_end_date = Some \<lparr>year = 2026, month = 5, day = 31\<rparr>,
               lr_notes = Some [], lr_status = Some ''pending''\<rparr>),
         (2, \<lparr>lr_unit_id = Some 3, lr_tenant_user_id = Some 2,
               lr_start_date = Some \<lparr>year = 2025, month = 7, day = 1\<rparr>,
               lr_end_date = Some \<lparr>year = 2025, month = 12, day = 31\<rparr>,
               lr_notes = None, lr_status = Some ''rejected''\<rparr>),
         (3, \<lparr>lr_unit_id = Some 1, lr_tenant_user_id = Some 2,
               lr_start_date = Some \<lparr>year = 2025, month = 1, day = 15\<rparr>,
               lr_end_date = Some \<lparr>year = 2026, month = 1, day = 15\<rparr>,
               lr_notes = None, lr_status = Some ''approved''\<rparr>)],
      emergency_contacts =
        [(1, \<lparr>ec_unit_identifier = Some ''Room 1'', ec_name = Some ''Juan Dela Cruz'',
               ec_phone = Some ''09171234567''\<rparr>)]\<rparr>"

text \<open>A booking form for unit 3, and a date parser that knows the two dates it holds.\<close>

definition demo_form :: form where
  "demo_form = [''unit_id'' \<mapsto> ''3'', ''start_date'' \<mapsto> ''2025-06-01'',
                ''end_date'' \<mapsto> ''2026-05-31'', ''notes'' \<mapsto> ''ground floor'']"

definition demo_fromisoformat :: "string \<Rightarrow> date option" where
  "demo_fromisoformat x =
     (if x = ''2025-06-01'' then Some \<lparr>year = 2025, month = 6, day = 1\<rparr>
      else if x = ''2026-05-31'' then Some \<lparr>year = 2026, month = 5, day = 31\<rparr>
      else None)"

text \<open>
  The sample database with a second tenant and a second lease on unit 1, the table of
  leases holding the lease with key 2 before the lease with key 1.
\<close>

definition demo_db_two_leases :: db where
  "demo_db_two_leases =
     demo_db\<lparr>
      tenants :=
        [(1, \<lparr>tenant_name = ''Juan Dela Cruz'', tenant_phone = Some ''09171234567'',
               tenant_email = Some ''juan@example.com''\<rparr>),
         (2, \<lparr>tenant_name = ''Maria Santos'', tenant_phone = Some ''09187654321'',
               tenant_email = Some ''maria@example.com''\<rparr>)],
      leases :=
        [(2, \<lparr>lease_unit_id = Some 1, lease_tenant_id = Some 2,
               lease_start_date = Some \<lparr>year = 2026, month = 2, day = 1\<rparr>,
               lease_end_date = Some \<lparr>year = 2027, month = 1, day = 31\<rparr>,
               lease_monthly_rent = Some 6500\<rparr>),
         (1, \<lparr>lease_unit_id = Some 1, lease_tenant_id = Some 1,
               lease_start_date = Some \<lparr>year = 2025, month = 1, day = 15\<rparr>,
               lease_end_date = Some \<lparr>year = 2026, month = 1, day = 15\<rparr>,
               lease_monthly_rent = Some 5000\<rparr>)]\<rparr>"

text \<open>
  A stand-in for the password library: the hash of a password is the password after a
  fixed prefix. In the sample database the administrator's password is \<open>s3cret9\<close>.
\<close>

definition demo_generate_password_hash :: "string \<Rightarrow> string" where
  "demo_generate_password_hash p = ''hash-'' @ p"

definition demo_check_password_hash :: check_hash where
  "demo_check_password_hash h p =
     (case p of None \<Rightarrow> None | Some x \<Rightarrow> Some (h = demo_generate_password_hash x))"

text \<open>A storage layer that reads decimal text as integers and rejects every string bound
  to a Date column, and a \<open>float\<close> that knows two amounts.\<close>

definition demo_coercions :: coercions where
  "demo_coercions =
     \<lparr>int_column = py_int,
      date_column = (\<lambda>x. None),
      py_float = (\<lambda>x. if x = ''7000'' then Some 7000 else if x = ''2500.50'' then Some 2500.5 else None)\<rparr>"

text \<open>One form with the fields of the tenant, lease, payment, maintenance and emergency
  contact forms.\<close>

definition demo_fields :: form where
  "demo_fields =
     [''name'' \<mapsto> ''Eve Cruz'', ''phone'' \<mapsto> ''0999'', ''email'' \<mapsto> ''eve@example.com'',
      ''unit_id'' \<mapsto> ''3'', ''tenant_id'' \<mapsto> ''1'', ''monthly_rent'' \<mapsto> ''7000'',
      ''lease_id'' \<mapsto> ''1'', ''amount'' \<mapsto> ''2500.50'',
      ''description'' \<mapsto> ''Broken window'', ''status'' \<mapsto> ''in_progress'',
      ''unit_identifier'' \<mapsto> ''Room 3'']"

section \<open>Basic facts\<close>

lemma is_admin_user_simps [simp]:
  "is_admin_user (Admin i)" "\<not> is_admin_user Anonymous" "\<not> is_admin_user (TenantAccount i)"
  by (simp_all add: is_admin_user_def startswith_def)

lemma is_tenant_user_simps [simp]:
  "is_tenant_user (TenantAccount i)" "\<not> is_tenant_user Anonymous" "\<not> is_tenant_user (Admin i)"
  by (simp_all add: is_tenant_user_def startswith_def)

lemma login_required_simps [simp]:
  "login_required (Admin i) h s = h s"
  "login_required (TenantAccount i) h s = h s"
  "login_required Anonymous h s = (Redirect ''login'', [Notice ''Please log in to access this page.''], s)"
  by (simp_all add: login_required_def)

lemma query_get_update_row:
  "query_get (update_row t i f) j = (if j = i then map_option f (query_get t i) else query_get t j)"
  by (induction t) (auto simp: query_get_def update_row_def)

lemma keys_update_row [simp]: "map fst (update_row t i f) = map fst t"
  by (induction t) (auto simp: update_row_def)

lemma length_update_row [simp]: "length (update_row t i f) = length t"
  by (simp add: update_row_def)

subsection \<open>Printing an integer and reading it back\<close>






lemma digits_value_digits: "\<forall>c \<in> set ds. is_digit c \<Longrightarrow> digits_value acc ds \<noteq> None"
  by (induction ds arbitrary: acc) auto











lemma split_underscore_tenant: "split_underscore (''tenant_'' @ n) = (''tenant'', n)"
  by (simp add: split_underscore_def)

lemma split_underscore_user: "split_underscore (''user_'' @ n) = (''user'', n)"
  by (simp add: split_underscore_def)


section \<open>Rejecting a booking request\<close>

text \<open>
  C8. For a booking request that exists, the reject operation called by an administrator
  changes only the status field of that request, which becomes \<open>rejected\<close>: every other
  table is the same afterwards, the booking-request table has the same keys in the same
  order, the request keeps all its other fields, and every other request is unchanged.
\<close>

theorem reject_changes_only_status:
  assumes "query_get (lease_requests s) rid = Some r"
  shows "\<exists>s'. reject_booking_request (Admin a) rid s =
            (Redirect ''booking_requests'', [Notice ''Booking request rejected.''], s')
         \<and> s' = s\<lparr>lease_requests := lease_requests s'\<rparr>
         \<and> map fst (lease_requests s') = map fst (lease_requests s)
         \<and> query_get (lease_requests s') rid = Some (r\<lparr>lr_status := Some ''rejected''\<rparr>)
         \<and> (\<forall>j. j \<noteq> rid \<longrightarrow> query_get (lease_requests s') j = query_get (lease_requests s) j)"
  using assms by (simp add: reject_booking_request_def query_get_update_row)

theorem reject_changes_only_status_witness:
  "query_get (lease_requests demo_db) 1 \<noteq> None
   \<and> (\<exists>s'. reject_booking_request (Admin 1) 1 demo_db =
            (Redirect ''booking_requests'', [Notice ''Booking request rejected.''], s')
         \<and> leases s' = leases demo_db \<and> tenants s' = tenants demo_db \<and> units s' = units demo_db
         \<and> map_option lr_status (query_get (lease_requests s') 1) = Some (Some ''rejected'')
         \<and> query_get (lease_requests s') 2 = query_get (lease_requests demo_db) 2)"
proof -
  obtain r where h: "query_get (lease_requests demo_db) 1 = Some r"
    by (simp add: demo_db_def query_get_def)
  from reject_changes_only_status [OF h, of 1] obtain s' where
    s': "reject_booking_request (Admin 1) 1 demo_db =
            (Redirect ''booking_requests'', [Notice ''Booking request rejected.''], s')"
        "s' = demo_db\<lparr>lease_requests := lease_requests s'\<rparr>"
        "query_get (lease_requests s') 1 = Some (r\<lparr>lr_status := Some ''rejected''\<rparr>)"
        "\<forall>j. j \<noteq> 1 \<longrightarrow> query_get (lease_requests s') j = query_get (lease_requests demo_db) j"
    by blast
  have "leases s' = leases demo_db" "tenants s' = tenants demo_db" "units s' = units demo_db"
    by (subst s'(2), simp)+
  moreover have "query_get (lease_requests s') 2 = query_get (lease_requests demo_db) 2"
    using s'(4) by simp
  ultimately show ?thesis using h s'(1,3) by simp
qed

subsection \<open>Keys, lookups and the get-or-create step\<close>

lemma next_id_fresh: "query_get t (next_id t) = None"
proof -
  have "i \<in> set (map fst t) \<Longrightarrow> i < next_id t" for i
  proof -
    assume a: "i \<in> set (map fst t)"
    then have "t \<noteq> []" by auto
    moreover from a have "i \<le> Max (set (map fst t))" by (intro Max_ge) auto
    ultimately show ?thesis by (simp add: next_id_def)
  qed
  then have "next_id t \<notin> set (map fst t)" by blast
  then show ?thesis by (simp add: query_get_def map_of_eq_None_iff)
qed

lemma query_get_session_add:
  "query_get (session_add t r) j =
     (if j = next_id t then Some r else query_get t j)"
proof (cases "j = next_id t")
  case True
  with next_id_fresh [of t] show ?thesis
    by (simp add: session_add_def query_get_def map_add_def map_of_append)
next
  case False
  then show ?thesis
    by (simp add: session_add_def query_get_def map_add_def map_of_append split: option.split)
qed

lemma approve_effect:
  assumes r: "query_get (lease_requests s) rid = Some r"
      and u: "lr_unit_id r = Some uid" "query_get (units s) uid = Some unit"
      and t: "lr_tenant_user_id r = Some aid" "query_get (tenant_users s) aid = Some tu"
  shows "approve_booking_request (Admin a) rid s =
     (Redirect ''booking_requests'', [Approved (unit_number unit)],
      s\<lparr>lease_requests := update_row (lease_requests s) rid (\<lambda>r. r\<lparr>lr_status := Some ''approved''\<rparr>),
        tenants := snd (get_or_create_tenant (tenants s) tu),
        units := update_row (units s) uid (\<lambda>r. r\<lparr>unit_status := Some ''occupied''\<rparr>),
        leases := session_add (leases s)
           \<lparr>lease_unit_id = Some uid,
            lease_tenant_id = Some (fst (get_or_create_tenant (tenants s) tu)),
            lease_start_date = lr_start_date r,
            lease_end_date = lr_end_date r,
            lease_monthly_rent = Some 0\<rparr>\<rparr>)"
  using assms
  by (simp add: approve_booking_request_def lr_tenant_user_def lr_unit_def Let_def split: prod.splits)


lemma query_first_None_iff:
  "query_first p t = None \<longleftrightarrow> \<not> (\<exists>x \<in> set t. p (snd x))"
  by (auto simp: query_first_def find_None_iff)

lemma query_first_SomeD:
  "query_first p t = Some (i, r) \<Longrightarrow> (i, r) \<in> set t \<and> p r"
  by (auto simp: query_first_def find_Some_iff in_set_conv_nth)

lemma get_or_create_tenant_cases:
  "if (\<exists>x \<in> set t. tenant_email (snd x) = Some (tu_email tu))
   then snd (get_or_create_tenant t tu) = t
        \<and> (\<exists>r. (fst (get_or_create_tenant t tu), r) \<in> set t \<and> tenant_email r = Some (tu_email tu))
   else snd (get_or_create_tenant t tu) =
          t @ [(next_id t, \<lparr>tenant_name = tu_username tu, tenant_phone = tu_phone tu,
                            tenant_email = Some (tu_email tu)\<rparr>)]
        \<and> fst (get_or_create_tenant t tu) = next_id t"
proof (cases "query_first (\<lambda>r. tenant_email r = Some (tu_email tu)) t")
  case None
  then show ?thesis
    using query_first_None_iff [of "\<lambda>r. tenant_email r = Some (tu_email tu)" t]
    by (simp add: get_or_create_tenant_def session_add_def)
next
  case (Some a)
  obtain i r where a: "a = (i, r)" by (cases a)
  from Some a query_first_SomeD [of "\<lambda>r. tenant_email r = Some (tu_email tu)" t i r]
  have m: "(i, r) \<in> set t" "tenant_email r = Some (tu_email tu)" by simp_all
  then have "\<exists>x \<in> set t. tenant_email (snd x) = Some (tu_email tu)" by force
  with Some a m show ?thesis
    by (auto simp: get_or_create_tenant_def)
qed

section \<open>Approving a booking request\<close>

text \<open>
  C1. For a booking request in status \<open>pending\<close> whose unit and tenant account exist, the
  approve operation called by an administrator sets that unit's status to \<open>occupied\<close>
  and leaves every other unit as it is, appends exactly one lease for the unit with the
  request's start and end dates and a monthly rent of zero, sets the request's status to
  \<open>approved\<close> and leaves every other request as it is; if a tenant record with the
  account's email exists the tenant table is unchanged and the lease names such a record,
  otherwise exactly one tenant record is appended and the lease names it. No other table
  changes.
\<close>

theorem approve_pending_request:
  assumes r: "query_get (lease_requests s) rid = Some r"
      and p: "lr_status r = Some ''pending''"
      and u: "lr_unit_id r = Some uid" "query_get (units s) uid = Some unit"
      and t: "lr_tenant_user_id r = Some aid" "query_get (tenant_users s) aid = Some tu"
  shows "\<exists>s' tid.
     approve_booking_request (Admin a) rid s =
       (Redirect ''booking_requests'', [Approved (unit_number unit)], s')
     \<and> s' = s\<lparr>units := units s', leases := leases s', lease_requests := lease_requests s',
               tenants := tenants s'\<rparr>
     \<and> map fst (units s') = map fst (units s)
     \<and> query_get (units s') uid = Some (unit\<lparr>unit_status := Some ''occupied''\<rparr>)
     \<and> (\<forall>j. j \<noteq> uid \<longrightarrow> query_get (units s') j = query_get (units s) j)
     \<and> leases s' = leases s @
          [(next_id (leases s),
            \<lparr>lease_unit_id = Some uid, lease_tenant_id = Some tid,
             lease_start_date = lr_start_date r, lease_end_date = lr_end_date r,
             lease_monthly_rent = Some 0\<rparr>)]
     \<and> map fst (lease_requests s') = map fst (lease_requests s)
     \<and> query_get (lease_requests s') rid = Some (r\<lparr>lr_status := Some ''approved''\<rparr>)
     \<and> (\<forall>j. j \<noteq> rid \<longrightarrow> query_get (lease_requests s') j = query_get (lease_requests s) j)
     \<and> (if (\<exists>x \<in> set (tenants s). tenant_email (snd x) = Some (tu_email tu))
        then tenants s' = tenants s
             \<and> (\<exists>row. (tid, row) \<in> set (tenants s) \<and> tenant_email row = Some (tu_email tu))
        else tenants s' = tenants s @
               [(next_id (tenants s),
                 \<lparr>tenant_name = tu_username tu, tenant_phone = tu_phone tu,
                  tenant_email = Some (tu_email tu)\<rparr>)]
             \<and> tid = next_id (tenants s))"
  using get_or_create_tenant_cases [of "tenants s" tu] r u
  by (simp add: approve_effect [OF r u t] query_get_update_row session_add_def)


theorem approve_pending_request_witness:
  "\<exists>s'. approve_booking_request (Admin 1) 1 demo_db =
          (Redirect ''booking_requests'', [Approved ''Room 2''], s')
      \<and> map_option unit_status (query_get (units s') 2) = Some (Some ''occupied'')
      \<and> query_get (units s') 3 = query_get (units demo_db) 3
      \<and> leases s' = leases demo_db @
          [(2, \<lparr>lease_unit_id = Some 2, lease_tenant_id = Some 2,
                lease_start_date = Some \<lparr>year = 2025, month = 6, day = 1\<rparr>,
                lease_end_date = Some \<lparr>year = 2026, month = 5, day = 31\<rparr>,
                lease_monthly_rent = Some 0\<rparr>)]
      \<and> map_option lr_status (query_get (lease_requests s') 1) = Some (Some ''approved'')
      \<and> tenants s' = tenants demo_db @
          [(2, \<lparr>tenant_name = ''tenant'', tenant_phone = None,
                tenant_email = Some ''tenant@example.com''\<rparr>)]"
proof -
  let ?r = "\<lparr>lr_unit_id = Some 2, lr_tenant_user_id = Some 1,
               lr_start_date = Some \<lparr>year = 2025, month = 6, day = 1\<rparr>,
               lr_end_date = Some \<lparr>year = 2026, month = 5, day = 31\<rparr>,
               lr_notes = Some [], lr_status = Some ''pending''\<rparr>"
  let ?unit = "\<lparr>unit_number = ''Room 2'', unit_status = Some ''vacant'', unit_property_id = Some 2\<rparr>"
  let ?tu = "\<lparr>tu_username = ''tenant'', tu_email = ''tenant@example.com'',
               tu_password_hash = ''hash-tenant123'', tu_phone = None\<rparr>"
  have r: "query_get (lease_requests demo_db) 1 = Some ?r"
    and p: "lr_status ?r = Some ''pending''"
    and u: "lr_unit_id ?r = Some 2" "query_get (units demo_db) 2 = Some ?unit"
    and t: "lr_tenant_user_id ?r = Some 1" "query_get (tenant_users demo_db) 1 = Some ?tu"
    by (simp_all add: demo_db_def query_get_def)
  have n: "next_id (leases demo_db) = 2" "next_id (tenants demo_db) = 2"
    "\<not> (\<exists>x \<in> set (tenants demo_db). tenant_email (snd x) = Some (tu_email ?tu))"
    by (simp_all add: demo_db_def next_id_def)
  from approve_pending_request [OF r p u t, of 1] obtain s' tid where
    "approve_booking_request (Admin 1) 1 demo_db =
       (Redirect ''booking_requests'', [Approved (unit_number ?unit)], s')"
    "query_get (units s') 2 = Some (?unit\<lparr>unit_status := Some ''occupied''\<rparr>)"
    "\<forall>j. j \<noteq> 2 \<longrightarrow> query_get (units s') j = query_get (units demo_db) j"
    "leases s' = leases demo_db @
          [(next_id (leases demo_db),
            \<lparr>lease_unit_id = Some 2, lease_tenant_id = Some tid,
             lease_start_date = lr_start_date ?r, lease_end_date = lr_end_date ?r,
             lease_monthly_rent = Some 0\<rparr>)]"
    "query_get (lease_requests s') 1 = Some (?r\<lparr>lr_status := Some ''approved''\<rparr>)"
    "(if (\<exists>x \<in> set (tenants demo_db). tenant_email (snd x) = Some (tu_email ?tu))
        then tenants s' = tenants demo_db
             \<and> (\<exists>row. (tid, row) \<in> set (tenants demo_db) \<and> tenant_email row = Some (tu_email ?tu))
        else tenants s' = tenants demo_db @
               [(next_id (tenants demo_db),
                 \<lparr>tenant_name = tu_username ?tu, tenant_phone = tu_phone ?tu,
                  tenant_email = Some (tu_email ?tu)\<rparr>)]
             \<and> tid = next_id (tenants demo_db))"
    by blast
  then show ?thesis using n by simp
qed

section \<open>Requests that are already approved or rejected\<close>

lemma query_get_filter_keep:
  "query_get t j = Some r \<Longrightarrow> p r \<Longrightarrow> query_get (filter (\<lambda>(i, x). p x) t) j = Some r"
  by (induction t) (auto simp: query_get_def split: if_splits)

lemma query_get_session_add_old:
  "query_get t j = Some r \<Longrightarrow> query_get (session_add t x) j = Some r"
  using next_id_fresh [of t] by (auto simp: query_get_session_add)

lemma book_unit_requests:
  "lease_requests (snd (snd (book_unit f u form s))) = lease_requests s
   \<or> (\<exists>x. lease_requests (snd (snd (book_unit f u form s))) = session_add (lease_requests s) x)"
  by (auto simp: book_unit_def login_required_def Let_def split: option.splits)

lemma purge_keeps_request:
  assumes "query_get (lease_requests s) j = Some r" "lr_status r \<noteq> Some ''rejected''"
  shows "query_get (lease_requests (snd (snd (purge_rejected_requests f u s)))) j = Some r"
proof -
  have "query_get (filter (\<lambda>(i, x). \<not> is_rejected x) (lease_requests s)) j = Some r"
    using assms by (intro query_get_filter_keep) (simp_all add: is_rejected_def)
  with assms(1) show ?thesis
    by (simp add: purge_rejected_requests_def login_required_def try_purge_def Let_def
        split: sum.splits)
qed

text \<open>
  C2, as stated, fails: approve and reject do not look at the current status. In the
  sample database request 2 is \<open>rejected\<close>; approving it makes it \<open>approved\<close> and adds
  a lease. Request 3 is \<open>approved\<close>; rejecting it makes it \<open>rejected\<close>.
\<close>

theorem settled_request_counterexample:
  "map_option lr_status (query_get (lease_requests demo_db) 2) = Some (Some ''rejected'')
   \<and> map_option lr_status
        (query_get (lease_requests (snd (snd (approve_booking_request (Admin 1) 2 demo_db)))) 2)
      = Some (Some ''approved'')
   \<and> length (leases (snd (snd (approve_booking_request (Admin 1) 2 demo_db))))
      = length (leases demo_db) + 1
   \<and> map_option lr_status (query_get (lease_requests demo_db) 3) = Some (Some ''approved'')
   \<and> map_option lr_status
        (query_get (lease_requests (snd (snd (reject_booking_request (Admin 1) 3 demo_db)))) 3)
      = Some (Some ''rejected'')"
  by (simp add: approve_booking_request_def reject_booking_request_def demo_db_def query_get_def
      update_row_def lr_tenant_user_def lr_unit_def get_or_create_tenant_def query_first_def
      session_add_def Let_def)


text \<open>
  C2, amended. A booking request that exists, whatever its status, is left as it is by a
  booking submission and, unless its status is \<open>rejected\<close>, by the purge. Reject, called
  by an administrator, sets its status to \<open>rejected\<close> and leaves the lease and tenant
  tables as they are. Approve, called by an administrator on a request whose unit and
  tenant account exist, sets its status to \<open>approved\<close> and adds exactly one lease.
\<close>

theorem settled_request_operations:
  assumes r: "query_get (lease_requests s) rid = Some r"
      and u: "lr_unit_id r = Some uid" "query_get (units s) uid = Some unit"
      and t: "lr_tenant_user_id r = Some aid" "query_get (tenant_users s) aid = Some tu"
  shows "query_get (lease_requests (snd (snd (book_unit f v form s)))) rid = Some r
     \<and> (lr_status r \<noteq> Some ''rejected'' \<longrightarrow>
          query_get (lease_requests (snd (snd (purge_rejected_requests flt w s)))) rid = Some r)
     \<and> (\<exists>s'. snd (snd (reject_booking_request (Admin a) rid s)) = s'
            \<and> query_get (lease_requests s') rid = Some (r\<lparr>lr_status := Some ''rejected''\<rparr>)
            \<and> leases s' = leases s \<and> tenants s' = tenants s)
     \<and> (\<exists>s'. snd (snd (approve_booking_request (Admin a) rid s)) = s'
            \<and> query_get (lease_requests s') rid = Some (r\<lparr>lr_status := Some ''approved''\<rparr>)
            \<and> length (leases s') = length (leases s) + 1)"
proof -
  have "query_get (lease_requests (snd (snd (book_unit f v form s)))) rid = Some r"
    using book_unit_requests [of f v form s] r by (auto simp: query_get_session_add_old)
  moreover have "lr_status r \<noteq> Some ''rejected'' \<longrightarrow>
          query_get (lease_requests (snd (snd (purge_rejected_requests flt w s)))) rid = Some r"
    using purge_keeps_request [OF r] by simp
  moreover have "\<exists>s'. snd (snd (reject_booking_request (Admin a) rid s)) = s'
            \<and> query_get (lease_requests s') rid = Some (r\<lparr>lr_status := Some ''rejected''\<rparr>)
            \<and> leases s' = leases s \<and> tenants s' = tenants s"
    using r by (simp add: reject_booking_request_def query_get_update_row)
  moreover have "\<exists>s'. snd (snd (approve_booking_request (Admin a) rid s)) = s'
            \<and> query_get (lease_requests s') rid = Some (r\<lparr>lr_status := Some ''approved''\<rparr>)
            \<and> length (leases s') = length (leases s) + 1"
    using r by (simp add: approve_effect [OF r u t] query_get_update_row session_add_def)
  ultimately show ?thesis by blast
qed

theorem settled_request_operations_witness:
  "map_option lr_status (query_get (lease_requests demo_db) 3) = Some (Some ''approved'')
   \<and> query_get (lease_requests (snd (snd (book_unit demo_fromisoformat (TenantAccount 1) demo_form demo_db)))) 3
       = query_get (lease_requests demo_db) 3
   \<and> query_get (lease_requests (snd (snd (purge_rejected_requests NoFault (Admin 1) demo_db)))) 3
       = query_get (lease_requests demo_db) 3
   \<and> map_option lr_status
        (query_get (lease_requests (snd (snd (reject_booking_request (Admin 1) 3 demo_db)))) 3)
       = Some (Some ''rejected'')
   \<and> leases (snd (snd (reject_booking_request (Admin 1) 3 demo_db))) = leases demo_db
   \<and> tenants (snd (snd (reject_booking_request (Admin 1) 3 demo_db))) = tenants demo_db
   \<and> map_option lr_status
        (query_get (lease_requests (snd (snd (approve_booking_request (Admin 1) 3 demo_db)))) 3)
       = Some (Some ''approved'')
   \<and> length (leases (snd (snd (approve_booking_request (Admin 1) 3 demo_db)))) = 2"
proof -
  let ?r = "\<lparr>lr_unit_id = Some 1, lr_tenant_user_id = Some 2,
               lr_start_date = Some \<lparr>year = 2025, month = 1, day = 15\<rparr>,
               lr_end_date = Some \<lparr>year = 2026, month = 1, day = 15\<rparr>,
               lr_notes = None, lr_status = Some ''approved''\<rparr>"
  let ?unit = "\<lparr>unit_number = ''Room 1'', unit_status = Some ''occupied'', unit_property_id = Some 1\<rparr>"
  let ?tu = "\<lparr>tu_username = ''juan'', tu_email = ''juan@example.com'',
               tu_password_hash = ''hash-juan5678'', tu_phone = Some ''0917''\<rparr>"
  have r: "query_get (lease_requests demo_db) 3 = Some ?r"
    and u: "lr_unit_id ?r = Some 1" "query_get (units demo_db) 1 = Some ?unit"
    and t: "lr_tenant_user_id ?r = Some 2" "query_get (tenant_users demo_db) 2 = Some ?tu"
    by (simp_all add: demo_db_def query_get_def)
  have l: "length (leases demo_db) = 1" by (simp add: demo_db_def)
  show ?thesis
    using settled_request_operations [OF r u t, of demo_fromisoformat "TenantAccount 1" demo_form NoFault "Admin 1" 1]
      r l by simp
qed

section \<open>Purging rejected requests\<close>

lemma length_filter_split:
  "length (filter (\<lambda>(i, r). p r) t) + length (filter (\<lambda>(i, r). \<not> p r) t) = length t"
  by (induction t) auto

text \<open>
  C5. Called by an administrator, the purge deletes exactly the booking requests whose
  status is \<open>rejected\<close>: the rows left are the others, unchanged and in their order, every
  other table is unchanged, and the count reported is the number of rows removed. If the
  delete or the commit raises an error of the storage layer, the database is as it was
  before the call and a failure notice is reported.
\<close>

theorem purge_rejected_requests_effect:
  "(\<exists>s' n. purge_rejected_requests NoFault (Admin a) s =
             (Redirect ''booking_requests'', [Purged n], s')
         \<and> s' = s\<lparr>lease_requests := lease_requests s'\<rparr>
         \<and> lease_requests s' = filter (\<lambda>x. lr_status (snd x) \<noteq> Some ''rejected'') (lease_requests s)
         \<and> n = length (filter (\<lambda>x. lr_status (snd x) = Some ''rejected'') (lease_requests s))
         \<and> n + length (lease_requests s') = length (lease_requests s))
   \<and> purge_rejected_requests DeleteFails (Admin a) s =
        (Redirect ''booking_requests'', [Notice ''Error purging rejected requests.''], s)
   \<and> purge_rejected_requests CommitFails (Admin a) s =
        (Redirect ''booking_requests'', [Notice ''Error purging rejected requests.''], s)"
  using length_filter_split [of is_rejected "lease_requests s"]
  by (simp add: purge_rejected_requests_def try_purge_def Let_def is_rejected_def case_prod_unfold)

theorem purge_rejected_requests_effect_witness:
  "purge_rejected_requests NoFault (Admin 1) demo_db =
     (Redirect ''booking_requests'', [Purged 1],
      demo_db\<lparr>lease_requests := [lease_requests demo_db ! 0, lease_requests demo_db ! 2]\<rparr>)
   \<and> purge_rejected_requests CommitFails (Admin 1) demo_db =
        (Redirect ''booking_requests'', [Notice ''Error purging rejected requests.''], demo_db)"
proof -
  from purge_rejected_requests_effect [of 1 demo_db] obtain s' n where
    p: "purge_rejected_requests NoFault (Admin 1) demo_db = (Redirect ''booking_requests'', [Purged n], s')"
       "s' = demo_db\<lparr>lease_requests := lease_requests s'\<rparr>"
       "lease_requests s' = filter (\<lambda>x. lr_status (snd x) \<noteq> Some ''rejected'') (lease_requests demo_db)"
       "n = length (filter (\<lambda>x. lr_status (snd x) = Some ''rejected'') (lease_requests demo_db))"
    and c: "purge_rejected_requests CommitFails (Admin 1) demo_db =
        (Redirect ''booking_requests'', [Notice ''Error purging rejected requests.''], demo_db)"
    by blast
  have "n = 1" using p(4) by (simp add: demo_db_def)
  moreover have "lease_requests s' = [lease_requests demo_db ! 0, lease_requests demo_db ! 2]"
    using p(3) by (simp add: demo_db_def)
  ultimately show ?thesis using p(1,2) c by simp
qed

section \<open>Validation of a booking submission\<close>







section \<open>Dispatch of session restore\<close>



section \<open>Lease balances\<close>







section \<open>Latest tenant and rent of a unit\<close>

lemma find_snoc:
  "find p (xs @ [x]) = (case find p xs of Some y \<Rightarrow> Some y | None \<Rightarrow> if p x then Some x else None)"
  by (induction xs) auto

text \<open>What the tenant-name loop computes when no lease has key 0: for each unit, the
  entry of the lease that comes last in the iteration.\<close>

lemma unit_tenants_loop_last:
  assumes "\<forall>x \<in> set ls. fst x \<noteq> 0"
  shows "unit_tenants_loop s ls m k =
     (case find (\<lambda>(i, l). lease_unit_id l = k) (rev ls) of
        None \<Rightarrow> m k
      | Some (i, l) \<Rightarrow> Some (l_tenant_name s l, i))"
  using assms
proof (induction ls arbitrary: m)
  case Nil
  show ?case by simp
next
  case (Cons x ls)
  obtain i l where x: "x = (i, l)" by (cases x)
  from Cons.prems x have i: "i \<noteq> 0" and rest: "\<forall>x \<in> set ls. fst x \<noteq> 0" by auto
  have step: "unit_tenants_loop s (x # ls) m =
      unit_tenants_loop s ls (m(lease_unit_id l \<mapsto> (l_tenant_name s l, i)))"
    using i by (simp add: x dict_hasattr_id_def Let_def split: option.splits)
  show ?case
    unfolding step Cons.IH [OF rest]
    by (simp add: x find_snoc split: option.splits)
qed

lemma dashboard_unit_tenants_no_lease:
  assumes "\<forall>x \<in> set (leases s). lease_unit_id (snd x) \<noteq> k"
  shows "dashboard_unit_tenants s k = None"
proof -
  have "unit_tenants_loop s ls m k = m k" if "\<forall>x \<in> set ls. lease_unit_id (snd x) \<noteq> k" for ls m
    using that
  proof (induction ls arbitrary: m)
    case Nil
    show ?case by simp
  next
    case (Cons x ls)
    obtain i l where x: "x = (i, l)" by (cases x)
    with Cons.prems have "lease_unit_id l \<noteq> k" "\<forall>x \<in> set ls. lease_unit_id (snd x) \<noteq> k" by auto
    then show ?case by (simp add: x Cons.IH Let_def)
  qed
  with assms show ?thesis by (simp add: dashboard_unit_tenants_def)
qed

text \<open>The rent does come from the lease with the largest key.\<close>

lemma latest_lease_None:
  "latest_lease t uid = None \<longleftrightarrow> (\<forall>x \<in> set t. lease_unit_id (snd x) \<noteq> Some uid)"
proof -
  let ?f = "filter (\<lambda>(i, l). lease_unit_id l = Some uid) t"
  have "length (sort_key (\<lambda>(i, l). - i) ?f) = length ?f" by simp
  then have "sort_key (\<lambda>(i, l). - i) ?f = [] \<longleftrightarrow> ?f = []"
    by (simp only: length_0_conv [symmetric])
  moreover have "latest_lease t uid = None \<longleftrightarrow> sort_key (\<lambda>(i, l). - i) ?f = []"
    by (simp add: latest_lease_def split: list.splits)
  moreover have "?f = [] \<longleftrightarrow> (\<forall>x \<in> set t. lease_unit_id (snd x) \<noteq> Some uid)"
    by (simp add: filter_empty_conv case_prod_unfold)
  ultimately show ?thesis by simp
qed

lemma latest_lease_Some:
  assumes "latest_lease t uid = Some (i, l)"
  shows "(i, l) \<in> set t \<and> lease_unit_id l = Some uid
         \<and> (\<forall>x \<in> set t. lease_unit_id (snd x) = Some uid \<longrightarrow> fst x \<le> i)"
proof -
  let ?f = "filter (\<lambda>(i, l). lease_unit_id l = Some uid) t"
  from assms obtain xs where xs: "sort_key (\<lambda>(i, l). - i) ?f = (i, l) # xs"
    by (auto simp: latest_lease_def split: list.splits)
  have "set (sort_key (\<lambda>(i, l). - i) ?f) = set ?f" by simp
  with xs have mem: "(i, l) \<in> set ?f" and sub: "set ?f = insert (i, l) (set xs)" by auto
  have "sorted (map (\<lambda>(i, l). - i) (sort_key (\<lambda>(i, l). - i) ?f))" by (rule sorted_sort_key)
  with xs have "\<forall>y \<in> set xs. - i \<le> (case y of (j, l') \<Rightarrow> - j)" by auto
  with sub have le: "\<forall>y \<in> set ?f. fst y \<le> i" by (auto simp: case_prod_unfold)
  have "fst x \<le> i" if "x \<in> set t" "lease_unit_id (snd x) = Some uid" for x
  proof -
    from that have "x \<in> set ?f" by (simp add: case_prod_unfold)
    with le show ?thesis by blast
  qed
  moreover from mem have "(i, l) \<in> set t" "lease_unit_id l = Some uid" by simp_all
  ultimately show ?thesis by blast
qed

lemma unit_latest_rent_loop_lookup:
  "unit_latest_rent_loop s us m uid =
     (if uid \<in> fst ` set us
      then Some (case latest_lease (leases s) uid of None \<Rightarrow> Some 0 | Some (lid, l) \<Rightarrow> lease_monthly_rent l)
      else m uid)"
proof (induction us arbitrary: m)
  case Nil
  show ?case by simp
next
  case (Cons x us)
  obtain a b where x: "x = (a, b)" by (cases x)
  show ?case by (simp add: x Cons.IH)
qed

lemma dashboard_unit_latest_rent_highest_key:
  assumes "query_get (units s) uid \<noteq> None"
  shows "dashboard_unit_latest_rent s uid =
     Some (case latest_lease (leases s) uid of None \<Rightarrow> Some 0 | Some (lid, l) \<Rightarrow> lease_monthly_rent l)"
proof -
  from assms have "uid \<in> fst ` set (units s)"
    by (auto simp: query_get_def map_of_eq_None_iff)
  then show ?thesis by (simp add: dashboard_unit_latest_rent_def unit_latest_rent_loop_lookup)
qed

text \<open>
  C7 fails on the code for the tenant name. With the lease of key 2 listed before the
  lease of key 1, both on unit 1, the dashboard reports for unit 1 the tenant of lease 1
  and the rent of lease 2: the name comes from the lease iterated last, and only the rent
  comes from the lease with the highest key.
\<close>

theorem unit_tenant_from_last_lease:
  "map_option fst (latest_lease (leases demo_db_two_leases) 1) = Some 2
   \<and> Option.bind (latest_lease (leases demo_db_two_leases) 1) (\<lambda>(lid, l). l_tenant_name demo_db_two_leases l)
       = Some ''Maria Santos''
   \<and> dashboard_unit_tenants demo_db_two_leases (Some 1) = Some (Some ''Juan Dela Cruz'')
   \<and> dashboard_unit_latest_rent demo_db_two_leases 1 = Some (Some 6500)
   \<and> dashboard_unit_tenants demo_db_two_leases (Some 2) = None
   \<and> dashboard_unit_latest_rent demo_db_two_leases 2 = Some (Some 0)"
  by (simp add: demo_db_two_leases_def demo_db_def latest_lease_def l_tenant_name_def
      dashboard_unit_tenants_def dashboard_unit_latest_rent_def dict_hasattr_id_def query_get_def)

section \<open>Password checks\<close>

lemma login_checks_stored_hash:
  "query_first (\<lambda>r. user_username r = n) (users s) = Some (uid, user) \<Longrightarrow>
   form ''username'' = Some n \<Longrightarrow>
   login chk POST form s =
     (case chk (user_password_hash user) (form ''password'') of
        None \<Rightarrow> (Abort 500, [], None)
      | Some ok \<Rightarrow>
          if ok then (Redirect ''dashboard'', [Notice ''Logged in.''], Some (Admin uid))
          else (Render ''login.html'', [Notice ''Invalid credentials.''], None))"
  by (simp add: login_def)

lemma tenant_login_checks_stored_hash:
  "query_first (\<lambda>r. tu_username r = n) (tenant_users s) = Some (uid, tenant) \<Longrightarrow>
   form ''username'' = Some n \<Longrightarrow>
   tenant_login chk POST form s =
     (case chk (tu_password_hash tenant) (form ''password'') of
        None \<Rightarrow> (Abort 500, [], None)
      | Some ok \<Rightarrow>
          if ok then (Redirect ''dashboard'', [Notice ''Logged in as tenant.''], Some (TenantAccount uid))
          else (Render ''tenant_login.html'', [Notice ''Invalid credentials.''], None))"
  by (simp add: tenant_login_def)

lemma admin_autologin_fixed_password:
  "query_first (\<lambda>r. user_username r = ''admin'') (users s) = Some (uid, admin) \<Longrightarrow>
   admin_autologin (Some ''admin1234'') s = (Json True [] 200, [], Some (Admin uid))"
  by (simp add: admin_autologin_def truthy_def)

lemma password_change_reaches_demo_db:
  "change_password demo_check_password_hash demo_generate_password_hash (Admin 1) POST
     [''current_password'' \<mapsto> ''admin1234'', ''new_password'' \<mapsto> ''s3cret9'',
      ''confirm_password'' \<mapsto> ''s3cret9'']
     (demo_db\<lparr>users := [(1, \<lparr>user_username = ''admin'',
                                   user_password_hash = demo_generate_password_hash ''admin1234''\<rparr>)]\<rparr>)
   = (Redirect ''dashboard'', [Notice ''Password changed successfully.''], demo_db)"
  by (simp add: change_password_def current_password_hash_def principal_id_def query_get_def
      update_row_def demo_check_password_hash_def demo_generate_password_hash_def demo_db_def)

text \<open>
  C9 fails on the code for the administrator's quick login. In the sample database the
  hash stored for \<open>admin\<close> is that of \<open>s3cret9\<close>. The login form accepts \<open>s3cret9\<close> and
  refuses \<open>admin1234\<close>, as the stored hash says; \<open>admin_autologin\<close> compares the submitted
  password with the fixed text \<open>admin1234\<close> and never reads the stored hash, so it logs
  the administrator in with \<open>admin1234\<close> and refuses \<open>s3cret9\<close>.
\<close>

theorem admin_autologin_ignores_stored_hash:
  "login demo_check_password_hash POST [''username'' \<mapsto> ''admin'', ''password'' \<mapsto> ''s3cret9''] demo_db
     = (Redirect ''dashboard'', [Notice ''Logged in.''], Some (Admin 1))
   \<and> login demo_check_password_hash POST [''username'' \<mapsto> ''admin'', ''password'' \<mapsto> ''admin1234''] demo_db
     = (Render ''login.html'', [Notice ''Invalid credentials.''], None)
   \<and> admin_autologin (Some ''admin1234'') demo_db = (Json True [] 200, [], Some (Admin 1))
   \<and> admin_autologin (Some ''s3cret9'') demo_db = (Json False ''Incorrect password.'' 401, [], None)"
  by (simp add: login_def admin_autologin_def truthy_def demo_db_def query_first_def
      demo_check_password_hash_def demo_generate_password_hash_def)

section \<open>Handlers without an access check\<close>

lemma query_get_session_delete: "query_get (session_delete t i) i = None"
  by (induction t) (auto simp: query_get_def session_delete_def)

lemma lease_create_leases:
  assumes "form ''unit_id'' = Some a" "form ''tenant_id'' = Some b"
    "float_or_0 c (form ''monthly_rent'') = Some rent"
    "bind_date c (or_none (form ''start_date'')) = Some sd"
    "bind_date c (or_none (form ''end_date'')) = Some ed"
  shows "fst (lease_create c u POST form s) = Redirect ''leases_list''
     \<and> leases (snd (snd (lease_create c u POST form s))) =
       leases s @ [(next_id (leases s),
                    \<lparr>lease_unit_id = int_column c a, lease_tenant_id = int_column c b,
                     lease_start_date = sd, lease_end_date = ed,
                     lease_monthly_rent = Some rent\<rparr>)]"
  using assms by (simp add: lease_create_def Let_def session_add_def split: option.splits)

lemma lease_edit_row:
  assumes "query_get (leases s) lid = Some l"
    "form ''unit_id'' = Some a" "form ''tenant_id'' = Some b"
    "float_or_0 c (form ''monthly_rent'') = Some rent"
    "bind_date c (or_none (form ''start_date'')) = Some sd"
    "bind_date c (or_none (form ''end_date'')) = Some ed"
  shows "fst (lease_edit c u lid POST form s) = Redirect ''leases_list''
     \<and> query_get (leases (snd (snd (lease_edit c u lid POST form s)))) lid =
       Some \<lparr>lease_unit_id = int_column c a, lease_tenant_id = int_column c b,
             lease_start_date = sd, lease_end_date = ed,
             lease_monthly_rent = Some rent\<rparr>"
  using assms by (simp add: lease_edit_def query_get_update_row)

lemma lease_create_reply:
  "fst (lease_create c u m form s) \<in> {Abort 400, Abort 500, Redirect ''leases_list'', Render ''lease_form.html''}"
  by (simp add: lease_create_def Let_def split: option.splits)

lemma lease_edit_reply:
  "fst (lease_edit c u lid m form s) \<in> {Abort 404, Abort 400, Abort 500, Redirect ''leases_list'', Render ''lease_form.html''}"
  by (simp add: lease_edit_def Let_def split: option.splits)

lemma payment_create_reply:
  "fst (payment_create c u m form s) \<in> {Abort 400, Abort 500, Redirect ''payments_list'', Render ''payment_form.html''}"
  by (simp add: payment_create_def Let_def split: option.splits)

lemma tenant_create_reply:
  "fst (tenant_create u m form s) \<in> {Abort 400, Redirect ''tenants_list'', Render ''tenant_form.html''}"
  by (simp add: tenant_create_def split: option.splits)

lemma tenant_edit_reply:
  "fst (tenant_edit u tid m form s) \<in> {Abort 404, Abort 400, Redirect ''tenants_list'', Render ''tenant_form.html''}"
  by (simp add: tenant_edit_def split: option.splits)

lemma maintenance_create_reply:
  "fst (maintenance_create c u m form s) \<in> {Redirect ''maintenance_list'', Render ''maintenance_form.html''}"
  by (simp add: maintenance_create_def)

lemma maintenance_edit_reply:
  "fst (maintenance_edit u mid m form s) \<in> {Abort 404, Redirect ''maintenance_list'', Render ''maintenance_form.html''}"
  by (simp add: maintenance_edit_def split: option.splits)

lemma emergency_contact_create_reply:
  "fst (emergency_contact_create u m form s) \<in> {Redirect ''emergency_contacts_list'', Render ''emergency_contact_form.html''}"
  by (simp add: emergency_contact_create_def)

lemma emergency_contact_edit_reply:
  "fst (emergency_contact_edit u cid m form s) \<in> {Abort 404, Redirect ''emergency_contacts_list'', Render ''emergency_contact_form.html''}"
  by (simp add: emergency_contact_edit_def split: option.splits)

lemma emergency_contact_delete_reply:
  "fst (emergency_contact_delete u cid s) \<in> {Abort 404, Redirect ''emergency_contacts_list''}"
  by (simp add: emergency_contact_delete_def split: option.splits)

lemma tenant_delete_anonymous:
  "tenant_delete Anonymous tid s = (Redirect ''login'', [Notice ''Please log in to access this page.''], s)"
  "tenant_delete (TenantAccount i) tid s =
     (Redirect ''dashboard'', [Notice ''Admin access only. You cannot delete tenants.''], s)"
  by (simp_all add: tenant_delete_def)


lemma tenant_create_any_caller:
  "tenant_create u m form s = tenant_create Anonymous m form s
   \<and> fst (tenant_create u m form s) \<noteq> admin_only
   \<and> fst (tenant_create u m form s) \<noteq> Redirect ''login''
   \<and> fst (tenant_create u m form s) \<noteq> Redirect ''dashboard''"
proof -
  have "tenant_create u m form s = tenant_create Anonymous m form s"
    by (simp add: tenant_create_def)
  moreover have "fst (tenant_create u m form s) \<noteq> admin_only
   \<and> fst (tenant_create u m form s) \<noteq> Redirect ''login''
   \<and> fst (tenant_create u m form s) \<noteq> Redirect ''dashboard''"
    using tenant_create_reply [of u m form s] by (auto simp: admin_only_def)
  ultimately show ?thesis by simp
qed

lemma tenant_edit_any_caller:
  "tenant_edit u i m form s = tenant_edit Anonymous i m form s
   \<and> fst (tenant_edit u i m form s) \<noteq> admin_only
   \<and> fst (tenant_edit u i m form s) \<noteq> Redirect ''login''
   \<and> fst (tenant_edit u i m form s) \<noteq> Redirect ''dashboard''"
proof -
  have "tenant_edit u i m form s = tenant_edit Anonymous i m form s"
    by (simp add: tenant_edit_def)
  moreover have "fst (tenant_edit u i m form s) \<noteq> admin_only
   \<and> fst (tenant_edit u i m form s) \<noteq> Redirect ''login''
   \<and> fst (tenant_edit u i m form s) \<noteq> Redirect ''dashboard''"
    using tenant_edit_reply [of u i m form s] by (auto simp: admin_only_def)
  ultimately show ?thesis by simp
qed

lemma lease_create_any_caller:
  "lease_create c u m form s = lease_create c Anonymous m form s
   \<and> fst (lease_create c u m form s) \<noteq> admin_only
   \<and> fst (lease_create c u m form s) \<noteq> Redirect ''login''
   \<and> fst (lease_create c u m form s) \<noteq> Redirect ''dashboard''"
proof -
  have "lease_create c u m form s = lease_create c Anonymous m form s"
    by (simp add: lease_create_def)
  moreover have "fst (lease_create c u m form s) \<noteq> admin_only
   \<and> fst (lease_create c u m form s) \<noteq> Redirect ''login''
   \<and> fst (lease_create c u m form s) \<noteq> Redirect ''dashboard''"
    using lease_create_reply [of c u m form s] by (auto simp: admin_only_def)
  ultimately show ?thesis by simp
qed

lemma lease_edit_any_caller:
  "lease_edit c u i m form s = lease_edit c Anonymous i m form s
   \<and> fst (lease_edit c u i m form s) \<noteq> admin_only
   \<and> fst (lease_edit c u i m form s) \<noteq> Redirect ''login''
   \<and> fst (lease_edit c u i m form s) \<noteq> Redirect ''dashboard''"
proof -
  have "lease_edit c u i m form s = lease_edit c Anonymous i m form s"
    by (simp add: lease_edit_def)
  moreover have "fst (lease_edit c u i m form s) \<noteq> admin_only
   \<and> fst (lease_edit c u i m form s) \<noteq> Redirect ''login''
   \<and> fst (lease_edit c u i m form s) \<noteq> Redirect ''dashboard''"
    using lease_edit_reply [of c u i m form s] by (auto simp: admin_only_def)
  ultimately show ?thesis by simp
qed

lemma payment_create_any_caller:
  "payment_create c u m form s = payment_create c Anonymous m form s
   \<and> fst (payment_create c u m form s) \<noteq> admin_only
   \<and> fst (payment_create c u m form s) \<noteq> Redirect ''login''
   \<and> fst (payment_create c u m form s) \<noteq> Redirect ''dashboard''"
proof -
  have "payment_create c u m form s = payment_create c Anonymous m form s"
    by (simp add: payment_create_def)
  moreover have "fst (payment_create c u m form s) \<noteq> admin_only
   \<and> fst (payment_create c u m form s) \<noteq> Redirect ''login''
   \<and> fst (payment_create c u m form s) \<noteq> Redirect ''dashboard''"
    using payment_create_reply [of c u m form s] by (auto simp: admin_only_def)
  ultimately show ?thesis by simp
qed

lemma maintenance_create_any_caller:
  "maintenance_create c u m form s = maintenance_create c Anonymous m form s
   \<and> fst (maintenance_create c u m form s) \<noteq> admin_only
   \<and> fst (maintenance_create c u m form s) \<noteq> Redirect ''login''
   \<and> fst (maintenance_create c u m form s) \<noteq> Redirect ''dashboard''"
proof -
  have "maintenance_create c u m form s = maintenance_create c Anonymous m form s"
    by (simp add: maintenance_create_def)
  moreover have "fst (maintenance_create c u m form s) \<noteq> admin_only
   \<and> fst (maintenance_create c u m form s) \<noteq> Redirect ''login''
   \<and> fst (maintenance_create c u m form s) \<noteq> Redirect ''dashboard''"
    using maintenance_create_reply [of c u m form s] by (auto simp: admin_only_def)
  ultimately show ?thesis by simp
qed

lemma maintenance_edit_any_caller:
  "maintenance_edit u i m form s = maintenance_edit Anonymous i m form s
   \<and> fst (maintenance_edit u i m form s) \<noteq> admin_only
   \<and> fst (maintenance_edit u i m form s) \<noteq> Redirect ''login''
   \<and> fst (maintenance_edit u i m form s) \<noteq> Redirect ''dashboard''"
proof -
  have "maintenance_edit u i m form s = maintenance_edit Anonymous i m form s"
    by (simp add: maintenance_edit_def)
  moreover have "fst (maintenance_edit u i m form s) \<noteq> admin_only
   \<and> fst (maintenance_edit u i m form s) \<noteq> Redirect ''login''
   \<and> fst (maintenance_edit u i m form s) \<noteq> Redirect ''dashboard''"
    using maintenance_edit_reply [of u i m form s] by (auto simp: admin_only_def)
  ultimately show ?thesis by simp
qed

lemma emergency_contact_create_any_caller:
  "emergency_contact_create u m form s = emergency_contact_create Anonymous m form s
   \<and> fst (emergency_contact_create u m form s) \<noteq> admin_only
   \<and> fst (emergency_contact_create u m form s) \<noteq> Redirect ''login''
   \<and> fst (emergency_contact_create u m form s) \<noteq> Redirect ''dashboard''"
proof -
  have "emergency_contact_create u m form s = emergency_contact_create Anonymous m form s"
    by (simp add: emergency_contact_create_def)
  moreover have "fst (emergency_contact_create u m form s) \<noteq> admin_only
   \<and> fst (emergency_contact_create u m form s) \<noteq> Redirect ''login''
   \<and> fst (emergency_contact_create u m form s) \<noteq> Redirect ''dashboard''"
    using emergency_contact_create_reply [of u m form s] by (auto simp: admin_only_def)
  ultimately show ?thesis by simp
qed

lemma emergency_contact_edit_any_caller:
  "emergency_contact_edit u i m form s = emergency_contact_edit Anonymous i m form s
   \<and> fst (emergency_contact_edit u i m form s) \<noteq> admin_only
   \<and> fst (emergency_contact_edit u i m form s) \<noteq> Redirect ''login''
   \<and> fst (emergency_contact_edit u i m form s) \<noteq> Redirect ''dashboard''"
proof -
  have "emergency_contact_edit u i m form s = emergency_contact_edit Anonymous i m form s"
    by (simp add: emergency_contact_edit_def)
  moreover have "fst (emergency_contact_edit u i m form s) \<noteq> admin_only
   \<and> fst (emergency_contact_edit u i m form s) \<noteq> Redirect ''login''
   \<and> fst (emergency_contact_edit u i m form s) \<noteq> Redirect ''dashboard''"
    using emergency_contact_edit_reply [of u i m form s] by (auto simp: admin_only_def)
  ultimately show ?thesis by simp
qed

lemma emergency_contact_delete_any_caller:
  "emergency_contact_delete u i s = emergency_contact_delete Anonymous i s
   \<and> fst (emergency_contact_delete u i s) \<noteq> admin_only
   \<and> fst (emergency_contact_delete u i s) \<noteq> Redirect ''login''
   \<and> fst (emergency_contact_delete u i s) \<noteq> Redirect ''dashboard''"
proof -
  have "emergency_contact_delete u i s = emergency_contact_delete Anonymous i s"
    by (simp add: emergency_contact_delete_def)
  moreover have "fst (emergency_contact_delete u i s) \<noteq> admin_only
   \<and> fst (emergency_contact_delete u i s) \<noteq> Redirect ''login''
   \<and> fst (emergency_contact_delete u i s) \<noteq> Redirect ''dashboard''"
    using emergency_contact_delete_reply [of u i s] by (auto simp: admin_only_def)
  ultimately show ?thesis by simp
qed


lemma tenant_write:
  "(form ''name'' = Some name \<longrightarrow>
      tenant_create u POST form s =
        (Redirect ''tenants_list'', [Notice ''Tenant created.''],
         s\<lparr>tenants := tenants s @
             [(next_id (tenants s),
               \<lparr>tenant_name = name, tenant_phone = form ''phone'', tenant_email = form ''email''\<rparr>)]\<rparr>))"
  "(query_get (tenants s) i \<noteq> None \<and> form ''name'' = Some name \<longrightarrow>
      query_get (tenants (snd (snd (tenant_edit u i POST form s)))) i =
        Some \<lparr>tenant_name = name, tenant_phone = form ''phone'', tenant_email = form ''email''\<rparr>)"
  by (auto simp: tenant_create_def tenant_edit_def session_add_def query_get_update_row)

lemma lease_write:
  "(form ''unit_id'' = Some a \<and> form ''tenant_id'' = Some b
      \<and> float_or_0 c (form ''monthly_rent'') = Some rent
      \<and> bind_date c (or_none (form ''start_date'')) = Some sd
      \<and> bind_date c (or_none (form ''end_date'')) = Some ed \<longrightarrow>
      fst (lease_create c u POST form s) = Redirect ''leases_list''
      \<and> leases (snd (snd (lease_create c u POST form s))) =
          leases s @ [(next_id (leases s),
                       \<lparr>lease_unit_id = int_column c a, lease_tenant_id = int_column c b,
                        lease_start_date = sd, lease_end_date = ed,
                        lease_monthly_rent = Some rent\<rparr>)])"
  "(query_get (leases s) i \<noteq> None
      \<and> form ''unit_id'' = Some a \<and> form ''tenant_id'' = Some b
      \<and> float_or_0 c (form ''monthly_rent'') = Some rent
      \<and> bind_date c (or_none (form ''start_date'')) = Some sd
      \<and> bind_date c (or_none (form ''end_date'')) = Some ed \<longrightarrow>
      fst (lease_edit c u i POST form s) = Redirect ''leases_list''
      \<and> query_get (leases (snd (snd (lease_edit c u i POST form s)))) i =
          Some \<lparr>lease_unit_id = int_column c a, lease_tenant_id = int_column c b,
                lease_start_date = sd, lease_end_date = ed,
                lease_monthly_rent = Some rent\<rparr>)"
  using lease_create_leases [of form a b c rent sd ed u s] lease_edit_row [of s i _ form a b c rent sd ed u]
  by auto

lemma payment_write:
  "(form ''lease_id'' = Some lease_id \<and> form ''amount'' = Some amount_text
      \<and> float_or_0 c (Some amount_text) = Some amount \<longrightarrow>
      payment_create c u POST form s =
        (Redirect ''payments_list'', [Notice ''Payment logged.''],
         s\<lparr>payments := payments s @
             [(next_id (payments s),
               \<lparr>payment_lease_id = int_column c lease_id, payment_amount = amount\<rparr>)]\<rparr>))"
  by (simp add: payment_create_def session_add_def)

lemma maintenance_write:
  "maintenance_create c u POST form s =
      (Redirect ''maintenance_list'', [Notice ''Maintenance request created.''],
       s\<lparr>maintenance_requests := maintenance_requests s @
           [(next_id (maintenance_requests s),
             \<lparr>mr_unit_id = Option.bind (form ''unit_id'') (int_column c),
              mr_description = form ''description'', mr_status = Some ''open''\<rparr>)]\<rparr>)"
  "(query_get (maintenance_requests s) i = Some req \<longrightarrow>
      query_get (maintenance_requests (snd (snd (maintenance_edit u i POST form s)))) i =
        Some (req\<lparr>mr_description := form ''description'', mr_status := form ''status''\<rparr>))"
  by (simp_all add: maintenance_create_def maintenance_edit_def session_add_def query_get_update_row)

lemma emergency_contact_write:
  "emergency_contact_create u POST form s =
      (Redirect ''emergency_contacts_list'', [Notice ''Emergency contact added.''],
       s\<lparr>emergency_contacts := emergency_contacts s @
           [(next_id (emergency_contacts s),
             \<lparr>ec_unit_identifier = form ''unit_identifier'', ec_name = form ''name'',
              ec_phone = form ''phone''\<rparr>)]\<rparr>)"
  "(query_get (emergency_contacts s) i \<noteq> None \<longrightarrow>
      query_get (emergency_contacts (snd (snd (emergency_contact_edit u i POST form s)))) i =
        Some \<lparr>ec_unit_identifier = form ''unit_identifier'', ec_name = form ''name'',
              ec_phone = form ''phone''\<rparr>)"
  "(query_get (emergency_contacts s) i \<noteq> None \<longrightarrow>
      fst (emergency_contact_delete u i s) = Redirect ''emergency_contacts_list''
      \<and> query_get (emergency_contacts (snd (snd (emergency_contact_delete u i s)))) i = None)"
  by (auto simp: emergency_contact_create_def emergency_contact_edit_def emergency_contact_delete_def
      session_add_def query_get_update_row query_get_session_delete)

text \<open>
  C10. The handlers that create and edit tenants, leases, payments, maintenance requests
  and emergency contacts, and the handler that deletes an emergency contact, never read
  the current principal: for every caller the outcome is the one the anonymous caller
  gets, and the reply is never the administrator-only refusal nor the redirect to the
  login page or to the dashboard that the guarded handlers give. On a POST whose required
  fields are present and convert (and, for an edit or a delete, whose row exists) the
  write is applied: the new row is appended, the edited row holds the form's values, the
  deleted row is gone.
\<close>

theorem forms_have_no_access_check:
  "(tenant_create u m form s = tenant_create Anonymous m form s
      \<and> fst (tenant_create u m form s) \<noteq> admin_only
      \<and> fst (tenant_create u m form s) \<noteq> Redirect ''login''
      \<and> fst (tenant_create u m form s) \<noteq> Redirect ''dashboard'')
   \<and> (tenant_edit u i m form s = tenant_edit Anonymous i m form s
      \<and> fst (tenant_edit u i m form s) \<noteq> admin_only
      \<and> fst (tenant_edit u i m form s) \<noteq> Redirect ''login''
      \<and> fst (tenant_edit u i m form s) \<noteq> Redirect ''dashboard'')
   \<and> (lease_create c u m form s = lease_create c Anonymous m form s
      \<and> fst (lease_create c u m form s) \<noteq> admin_only
      \<and> fst (lease_create c u m form s) \<noteq> Redirect ''login''
      \<and> fst (lease_create c u m form s) \<noteq> Redirect ''dashboard'')
   \<and> (lease_edit c u i m form s = lease_edit c Anonymous i m form s
      \<and> fst (lease_edit c u i m form s) \<noteq> admin_only
      \<and> fst (lease_edit c u i m form s) \<noteq> Redirect ''login''
      \<and> fst (lease_edit c u i m form s) \<noteq> Redirect ''dashboard'')
   \<and> (payment_create c u m form s = payment_create c Anonymous m form s
      \<and> fst (payment_create c u m form s) \<noteq> admin_only
      \<and> fst (payment_create c u m form s) \<noteq> Redirect ''login''
      \<and> fst (payment_create c u m form s) \<noteq> Redirect ''dashboard'')
   \<and> (maintenance_create c u m form s = maintenance_create c Anonymous m form s
      \<and> fst (maintenance_create c u m form s) \<noteq> admin_only
      \<and> fst (maintenance_create c u m form s) \<noteq> Redirect ''login''
      \<and> fst (maintenance_create c u m form s) \<noteq> Redirect ''dashboard'')
   \<and> (maintenance_edit u i m form s = maintenance_edit Anonymous i m form s
      \<and> fst (maintenance_edit u i m form s) \<noteq> admin_only
      \<and> fst (maintenance_edit u i m form s) \<noteq> Redirect ''login''
      \<and> fst (maintenance_edit u i m form s) \<noteq> Redirect ''dashboard'')
   \<and> (emergency_contact_create u m form s = emergency_contact_create Anonymous m form s
      \<and> fst (emergency_contact_create u m form s) \<noteq> admin_only
      \<and> fst (emergency_contact_create u m form s) \<noteq> Redirect ''login''
      \<and> fst (emergency_contact_create u m form s) \<noteq> Redirect ''dashboard'')
   \<and> (emergency_contact_edit u i m form s = emergency_contact_edit Anonymous i m form s
      \<and> fst (emergency_contact_edit u i m form s) \<noteq> admin_only
      \<and> fst (emergency_contact_edit u i m form s) \<noteq> Redirect ''login''
      \<and> fst (emergency_contact_edit u i m form s) \<noteq> Redirect ''dashboard'')
   \<and> (emergency_contact_delete u i s = emergency_contact_delete Anonymous i s
      \<and> fst (emergency_contact_delete u i s) \<noteq> admin_only
      \<and> fst (emergency_contact_delete u i s) \<noteq> Redirect ''login''
      \<and> fst (emergency_contact_delete u i s) \<noteq> Redirect ''dashboard'')
   \<and> (form ''name'' = Some name \<longrightarrow>
      tenant_create u POST form s =
        (Redirect ''tenants_list'', [Notice ''Tenant created.''],
         s\<lparr>tenants := tenants s @
             [(next_id (tenants s),
               \<lparr>tenant_name = name, tenant_phone = form ''phone'', tenant_email = form ''email''\<rparr>)]\<rparr>))
   \<and> (query_get (tenants s) i \<noteq> None \<and> form ''name'' = Some name \<longrightarrow>
      query_get (tenants (snd (snd (tenant_edit u i POST form s)))) i =
        Some \<lparr>tenant_name = name, tenant_phone = form ''phone'', tenant_email = form ''email''\<rparr>)
   \<and> (form ''unit_id'' = Some a \<and> form ''tenant_id'' = Some b
      \<and> float_or_0 c (form ''monthly_rent'') = Some rent
      \<and> bind_date c (or_none (form ''start_date'')) = Some sd
      \<and> bind_date c (or_none (form ''end_date'')) = Some ed \<longrightarrow>
      fst (lease_create c u POST form s) = Redirect ''leases_list''
      \<and> leases (snd (snd (lease_create c u POST form s))) =
          leases s @ [(next_id (leases s),
                       \<lparr>lease_unit_id = int_column c a, lease_tenant_id = int_column c b,
                        lease_start_date = sd, lease_end_date = ed,
                        lease_monthly_rent = Some rent\<rparr>)])
   \<and> (query_get (leases s) i \<noteq> None
      \<and> form ''unit_id'' = Some a \<and> form ''tenant_id'' = Some b
      \<and> float_or_0 c (form ''monthly_rent'') = Some rent
      \<and> bind_date c (or_none (form ''start_date'')) = Some sd
      \<and> bind_date c (or_none (form ''end_date'')) = Some ed \<longrightarrow>
      fst (lease_edit c u i POST form s) = Redirect ''leases_list''
      \<and> query_get (leases (snd (snd (lease_edit c u i POST form s)))) i =
          Some \<lparr>lease_unit_id = int_column c a, lease_tenant_id = int_column c b,
                lease_start_date = sd, lease_end_date = ed,
                lease_monthly_rent = Some rent\<rparr>)
   \<and> (form ''lease_id'' = Some lease_id \<and> form ''amount'' = Some amount_text
      \<and> float_or_0 c (Some amount_text) = Some amount \<longrightarrow>
      payment_create c u POST form s =
        (Redirect ''payments_list'', [Notice ''Payment logged.''],
         s\<lparr>payments := payments s @
             [(next_id (payments s),
               \<lparr>payment_lease_id = int_column c lease_id, payment_amount = amount\<rparr>)]\<rparr>))
   \<and> maintenance_create c u POST form s =
      (Redirect ''maintenance_list'', [Notice ''Maintenance request created.''],
       s\<lparr>maintenance_requests := maintenance_requests s @
           [(next_id (maintenance_requests s),
             \<lparr>mr_unit_id = Option.bind (form ''unit_id'') (int_column c),
              mr_description = form ''description'', mr_status = Some ''open''\<rparr>)]\<rparr>)
   \<and> (query_get (maintenance_requests s) i = Some req \<longrightarrow>
      query_get (maintenance_requests (snd (snd (maintenance_edit u i POST form s)))) i =
        Some (req\<lparr>mr_description := form ''description'', mr_status := form ''status''\<rparr>))
   \<and> emergency_contact_create u POST form s =
      (Redirect ''emergency_contacts_list'', [Notice ''Emergency contact added.''],
       s\<lparr>emergency_contacts := emergency_contacts s @
           [(next_id (emergency_contacts s),
             \<lparr>ec_unit_identifier = form ''unit_identifier'', ec_name = form ''name'',
              ec_phone = form ''phone''\<rparr>)]\<rparr>)
   \<and> (query_get (emergency_contacts s) i \<noteq> None \<longrightarrow>
      query_get (emergency_contacts (snd (snd (emergency_contact_edit u i POST form s)))) i =
        Some \<lparr>ec_unit_identifier = form ''unit_identifier'', ec_name = form ''name'',
              ec_phone = form ''phone''\<rparr>)
   \<and> (query_get (emergency_contacts s) i \<noteq> None \<longrightarrow>
      fst (emergency_contact_delete u i s) = Redirect ''emergency_contacts_list''
      \<and> query_get (emergency_contacts (snd (snd (emergency_contact_delete u i s)))) i = None)"
  apply (rule conjI, rule tenant_create_any_caller)
  apply (rule conjI, rule tenant_edit_any_caller)
  apply (rule conjI, rule lease_create_any_caller)
  apply (rule conjI, rule lease_edit_any_caller)
  apply (rule conjI, rule payment_create_any_caller)
  apply (rule conjI, rule maintenance_create_any_caller)
  apply (rule conjI, rule maintenance_edit_any_caller)
  apply (rule conjI, rule emergency_contact_create_any_caller)
  apply (rule conjI, rule emergency_contact_edit_any_caller)
  apply (rule conjI, rule emergency_contact_delete_any_caller)
  apply (rule conjI, rule tenant_write(1))
  apply (rule conjI, rule tenant_write(2))
  apply (rule conjI, rule lease_write(1))
  apply (rule conjI, rule lease_write(2))
  apply (rule conjI, rule payment_write)
  apply (rule conjI, rule maintenance_write(1))
  apply (rule conjI, rule maintenance_write(2))
  apply (rule conjI, rule emergency_contact_write(1))
  apply (rule conjI, rule emergency_contact_write(2))
  apply (rule emergency_contact_write(3))
  done


theorem forms_have_no_access_check_witness:
  "tenant_create Anonymous POST demo_fields demo_db =
     (Redirect ''tenants_list'', [Notice ''Tenant created.''],
      demo_db\<lparr>tenants := tenants demo_db @
        [(2, \<lparr>tenant_name = ''Eve Cruz'', tenant_phone = Some ''0999'',
               tenant_email = Some ''eve@example.com''\<rparr>)]\<rparr>)
   \<and> leases (snd (snd (lease_create demo_coercions Anonymous POST demo_fields demo_db))) =
       leases demo_db @
         [(2, \<lparr>lease_unit_id = Some 3, lease_tenant_id = Some 1, lease_start_date = None,
                lease_end_date = None, lease_monthly_rent = Some 7000\<rparr>)]
   \<and> payment_create demo_coercions Anonymous POST demo_fields demo_db =
       (Redirect ''payments_list'', [Notice ''Payment logged.''],
        demo_db\<lparr>payments := payments demo_db @
          [(3, \<lparr>payment_lease_id = Some 1, payment_amount = 2500.5\<rparr>)]\<rparr>)
   \<and> query_get (emergency_contacts demo_db) 1 \<noteq> None
   \<and> query_get (emergency_contacts (snd (snd (emergency_contact_delete Anonymous 1 demo_db)))) 1 = None
   \<and> tenant_delete Anonymous 1 demo_db =
       (Redirect ''login'', [Notice ''Please log in to access this page.''], demo_db)"
proof -
  have f: "demo_fields ''name'' = Some ''Eve Cruz''" "demo_fields ''phone'' = Some ''0999''"
    "demo_fields ''email'' = Some ''eve@example.com''"
    "demo_fields ''unit_id'' = Some ''3''" "demo_fields ''tenant_id'' = Some ''1''"
    "demo_fields ''lease_id'' = Some ''1''" "demo_fields ''amount'' = Some ''2500.50''"
    by (simp_all add: demo_fields_def)
  have i: "int_column demo_coercions ''3'' = Some 3" "int_column demo_coercions ''1'' = Some 1"
    unfolding demo_coercions_def by (simp, code_simp)+
  have r: "float_or_0 demo_coercions (demo_fields ''monthly_rent'') = Some 7000"
    "float_or_0 demo_coercions (Some ''2500.50'') = Some 2500.5"
    by (simp_all add: float_or_0_def or_none_def truthy_def demo_fields_def demo_coercions_def)
  have d: "bind_date demo_coercions (or_none (demo_fields ''start_date'')) = Some None"
    "bind_date demo_coercions (or_none (demo_fields ''end_date'')) = Some None"
    by (simp_all add: bind_date_def or_none_def truthy_def demo_fields_def)
  have n: "next_id (tenants demo_db) = 2" "next_id (leases demo_db) = 2" "next_id (payments demo_db) = 3"
    by (simp_all add: demo_db_def next_id_def)
  have e: "query_get (emergency_contacts demo_db) 1 \<noteq> None"
    by (simp add: demo_db_def query_get_def)
  note t = forms_have_no_access_check [where u = Anonymous and m = POST and form = demo_fields
      and s = demo_db and c = demo_coercions and i = 1 and name = "''Eve Cruz''"
      and a = "''3''" and b = "''1''" and rent = 7000 and sd = None and ed = None
      and lease_id = "''1''" and amount_text = "''2500.50''" and amount = "2500.5"]
  have "tenant_create Anonymous POST demo_fields demo_db =
     (Redirect ''tenants_list'', [Notice ''Tenant created.''],
      demo_db\<lparr>tenants := tenants demo_db @
        [(2, \<lparr>tenant_name = ''Eve Cruz'', tenant_phone = Some ''0999'',
               tenant_email = Some ''eve@example.com''\<rparr>)]\<rparr>)"
    using t f n by simp
  moreover have "leases (snd (snd (lease_create demo_coercions Anonymous POST demo_fields demo_db))) =
       leases demo_db @
         [(2, \<lparr>lease_unit_id = Some 3, lease_tenant_id = Some 1, lease_start_date = None,
                lease_end_date = None, lease_monthly_rent = Some 7000\<rparr>)]"
    using t f i r d n by simp
  moreover have "payment_create demo_coercions Anonymous POST demo_fields demo_db =
       (Redirect ''payments_list'', [Notice ''Payment logged.''],
        demo_db\<lparr>payments := payments demo_db @
          [(3, \<lparr>payment_lease_id = Some 1, payment_amount = 2500.5\<rparr>)]\<rparr>)"
    using t f i r n by simp
  moreover have "query_get (emergency_contacts (snd (snd (emergency_contact_delete Anonymous 1 demo_db)))) 1 = None"
    using t e by simp
  ultimately show ?thesis using e by (simp add: tenant_delete_anonymous)
qed

end
